theory Spec2Isabelle
  imports Main
begin

section \<open>Data ingestion notebook: data model\<close>

text \<open>
  The development embeds the code cells of \<^verbatim>\<open>2_data_ingestion.ipynb\<close>: the image pipeline
  (\<^verbatim>\<open>get_img_desc\<close>, \<^verbatim>\<open>get_img_txt_embeddings\<close>, \<^verbatim>\<open>process_image_data\<close>, the chunk loop) and
  the text pipeline (\<^verbatim>\<open>get_continuous_chunks\<close>, \<^verbatim>\<open>process_text_data\<close>, the driver loop).

  Python exceptions are values of type \<open>error\<close>; a function that may raise returns
  \<open>error + 'a\<close>. Every call that leaves the process (model invocation, embedding request,
  local file write, ingestion POST) is recorded as an \<open>event\<close>, and a function returns the
  events it issued in the order it issued them. A request is recorded when it is issued,
  whatever comes back (\<open>Invoked\<close>, \<open>Embedded\<close>, \<open>Posted\<close>); a file is recorded when
  it has been written (\<open>Wrote\<close>).

  A Python string is modelled by its UTF-8 encoding, a list of bytes. The operations of
  the notebook on strings (concatenation, comparison, splitting at \<^verbatim>\<open>/\<close>, the last
  \<^verbatim>\<open>.\<close>, the replacement of one ASCII character by another, a search for an ASCII
  literal) give on the encodings the encoding of what they give on the strings, since no
  byte of an ASCII character occurs inside the encoding of another character. The class
  \<^verbatim>\<open>\d\<close> of the regular expressions is not ASCII: on a \<^verbatim>\<open>str\<close> it matches every
  character of the Unicode category of decimal digits. The table of these characters
  belongs to the Python runtime, not to the notebook, and is a parameter
  (\<open>decimal_digits\<close> below).
\<close>

datatype error =
    FileError | ClientError | InvokeError | IndexError | KeyError
  | AttributeError | WriteError | PostError | ValueError | EmbeddingError

text \<open>The JSON value under the key \<^verbatim>\<open>page_number\<close>: a regex group is a string, the text
  driver's running index is an integer.\<close>

datatype page_no = PageStr string | PageInt int

text \<open>The single element of the list that is serialised as the POST body.\<close>

record 'v ingest_record =
  file_path :: string
  file_text :: string
  page_number :: page_no
  metadata_filename :: string
  metadata_entities :: string
  vector_embedding :: "'v option"

text \<open>The dictionary \<^verbatim>\<open>json_data\<close> written to the local JSON file.\<close>

record audit_record =
  file_type :: string
  file_name :: string
  audit_text :: string
  audit_entities :: string
  audit_page_number :: string

text \<open>An element of \<^verbatim>\<open>resp_body['content']\<close>: a dictionary with or without the key
  \<^verbatim>\<open>text\<close>.\<close>

datatype block = TextBlock string | NoText

text \<open>An element of the tree returned by \<^verbatim>\<open>ne_chunk\<close>: a named-entity subtree with its
  label and leaves, or a tagged token.\<close>

datatype chunk = Tree string "(string \<times> string) list" | Tagged string string

datatype 'v event =
    Invoked string string
  | Embedded string
  | Wrote string audit_record
  | Posted string "'v ingest_record list"

text \<open>
  The collaborators the notebook calls. \<open>read_file\<close> is \<^verbatim>\<open>open(...).read()\<close>;
  \<open>client_ok\<close> says whether \<^verbatim>\<open>boto3.client\<close> at the head of \<^verbatim>\<open>process_image_data\<close>
  returns in the task of the given file; \<open>claude\<close> is, inside \<^verbatim>\<open>get_img_desc\<close>, the
  client, \<^verbatim>\<open>bedrock.invoke_model\<close> on the generative model and the decoding of the body,
  giving \<^verbatim>\<open>resp_body['content']\<close>;
  \<open>titan\<close> is the same for the embeddings model, giving \<^verbatim>\<open>response_body.get('embedding')\<close>;
  \<open>get_text_embedding\<close> is the function of that name imported from \<^verbatim>\<open>utils\<close>, whose body is
  not part of the notebook; \<open>nltk_ne_chunk\<close> is
  \<^verbatim>\<open>ne_chunk(pos_tag(word_tokenize(text)))\<close>; \<open>write_text\<close> says whether \<^verbatim>\<open>os.makedirs\<close>
  and \<^verbatim>\<open>Path(fpath).write_text\<close> return inside \<^verbatim>\<open>process_image_data\<close> and
  \<^verbatim>\<open>process_text_data\<close>; \<open>makedirs\<close> says whether the \<^verbatim>\<open>os.makedirs\<close> in the cell of
  the text driver returns; \<open>requests_post\<close> is the signed \<^verbatim>\<open>requests.request\<close>, giving
  \<^verbatim>\<open>r.text\<close>. \<open>decimal_digits\<close> is the table of the runtime that \<^verbatim>\<open>\d\<close> consults: the
  encodings of the characters that are decimal digits.
\<close>

record 'v services =
  read_file :: "string \<Rightarrow> error + string"
  client_ok :: "string \<Rightarrow> bool"
  claude :: "string \<Rightarrow> string \<Rightarrow> error + block list"
  titan :: "string \<Rightarrow> error + 'v option"
  get_text_embedding :: "string \<Rightarrow> error + 'v option"
  nltk_ne_chunk :: "string \<Rightarrow> chunk list"
  write_text :: "string \<Rightarrow> audit_record \<Rightarrow> bool"
  makedirs :: "string \<Rightarrow> bool"
  requests_post :: "string \<Rightarrow> 'v ingest_record list \<Rightarrow> error + string"
  decimal_digits :: "string list"

text \<open>The values the notebook reads from \<^verbatim>\<open>config\<close>, \<^verbatim>\<open>globals\<close>, the CloudFormation
  outputs and the two prompt files.\<close>

record config =
  bucket_name :: string
  bucket_img_prefix :: string
  image_file_extn :: string
  bucket_text_prefix :: string
  text_file_extn :: string
  json_img_dir :: string
  json_txt_dir :: string
  osi_img_endpoint :: string
  osi_text_endpoint :: string
  entity_extraction_prompt :: string
  image_desc_prompt :: string
  parallel_inference_count :: int

section \<open>Library functions the notebook uses\<close>

text \<open>\<^verbatim>\<open>s.replace('"', "'")\<close>: both strings have one character, so the replacement is
  character by character.\<close>

definition replace_dquote :: "string \<Rightarrow> string" where
  "replace_dquote s = map (\<lambda>c. if c = CHR 0x22 then CHR 0x27 else c) s"

text \<open>\<^verbatim>\<open>sep.join(xs)\<close>.\<close>

fun str_join :: "string \<Rightarrow> string list \<Rightarrow> string" where
  "str_join sep [] = []"
| "str_join sep [x] = x"
| "str_join sep (x # y # ys) = x @ sep @ str_join sep (y # ys)"

text \<open>\<^verbatim>\<open>s.split(d)\<close> for a one-character separator.\<close>

fun split_on :: "char \<Rightarrow> string \<Rightarrow> string list" where
  "split_on d [] = [[]]"
| "split_on d (c # cs) =
     (if c = d then [] # split_on d cs
      else (case split_on d cs of [] \<Rightarrow> [[c]] | w # ws \<Rightarrow> (c # w) # ws))"

text \<open>\<^verbatim>\<open>Path(p).name\<close> on a POSIX path: the last component, where empty components and
  \<^verbatim>\<open>.\<close> components do not count.\<close>

definition path_name :: "string \<Rightarrow> string" where
  "path_name p =
     (let parts = filter (\<lambda>c. c \<noteq> [] \<and> c \<noteq> ''.'') (split_on CHR ''/'' p)
      in if parts = [] then [] else last parts)"

text \<open>\<^verbatim>\<open>Path(p).stem\<close>: with \<open>i\<close> the index of the last dot of the name, the name up to
  \<open>i\<close> when \<open>0 < i < len(name) - 1\<close>, the whole name otherwise.\<close>

definition path_stem :: "string \<Rightarrow> string" where
  "path_stem p =
     (let name = path_name p
      in if CHR ''.'' \<in> set name
         then (let i = length name - 1 - length (takeWhile (\<lambda>c. c \<noteq> CHR ''.'') (rev name))
               in if 0 < i \<and> i < length name - 1 then take i name else name)
         else name)"

text \<open>\<^verbatim>\<open>os.path.join(a, b)\<close> on POSIX.\<close>

definition os_path_join :: "string \<Rightarrow> string \<Rightarrow> string" where
  "os_path_join a b =
     (if b \<noteq> [] \<and> hd b = CHR ''/'' then b
      else if a = [] \<or> last a = CHR ''/'' then a @ b
      else a @ ''/'' @ b)"

text \<open>What \<^verbatim>\<open>\d\<close> matches at the head of \<open>s\<close>: the decimal digit of the table \<open>nd\<close>
  whose encoding \<open>s\<close> starts with, if there is one.\<close>

definition digit_at :: "string list \<Rightarrow> string \<Rightarrow> string option" where
  "digit_at nd s = find (\<lambda>d. d \<noteq> [] \<and> take (length d) s = d) nd"

text \<open>What the greedy \<^verbatim>\<open>\d+\<close> (or \<^verbatim>\<open>\d*\<close>) matches at the head of \<open>s\<close>: the longest run of
  decimal digits.\<close>

function take_digits :: "string list \<Rightarrow> string \<Rightarrow> string" where
  "take_digits nd s =
     (case digit_at nd s of
        None \<Rightarrow> []
      | Some d \<Rightarrow> d @ take_digits nd (drop (length d) s))"
  by pat_completeness auto
termination
proof (relation "measure (\<lambda>(nd, s). length s)")
  show "wf (measure (\<lambda>(nd, s). length s))" by simp
next
  fix nd :: "string list" and s d :: string
  assume "digit_at nd s = Some d"
  then have "d \<noteq> []" and "take (length d) s = d"
    by (auto simp: digit_at_def find_Some_iff)
  from \<open>d \<noteq> []\<close> have "0 < length d" by simp
  moreover have "length d \<le> length s"
  proof -
    from \<open>take (length d) s = d\<close> have "length d = length (take (length d) s)" by simp
    also have "\<dots> = min (length s) (length d)" by (rule length_take)
    finally show ?thesis by simp
  qed
  ultimately have "length s - length d < length s" by arith
  then show "((nd, drop (length d) s), (nd, s)) \<in> measure (\<lambda>(nd, s). length s)"
    by simp
qed

declare take_digits.simps [simp del]

text \<open>Whether the pattern \<^verbatim>\<open>lit(\d+)_?\<close> matches at the head of \<open>s\<close>: the literal, then
  at least one decimal digit.\<close>

definition match_here :: "string list \<Rightarrow> string \<Rightarrow> string \<Rightarrow> bool" where
  "match_here nd lit s =
     (take (length lit) s = lit \<and> digit_at nd (drop (length lit) s) \<noteq> None)"

text \<open>\<^verbatim>\<open>re.search(lit + r"(\d+)_?", s)\<close> followed by \<^verbatim>\<open>.group(1)\<close>: the leftmost position
  where the pattern matches, and there the longest run of decimal digits after the
  literal; \<open>None\<close> when \<^verbatim>\<open>re.search\<close> returns \<^verbatim>\<open>None\<close> (and \<^verbatim>\<open>.group\<close> raises). The
  literals of the notebook are ASCII, so a position where the literal stands is the
  position of a character.\<close>

fun re_search_number :: "string list \<Rightarrow> string \<Rightarrow> string \<Rightarrow> string option" where
  "re_search_number nd lit [] = None"
| "re_search_number nd lit (c # cs) =
     (if match_here nd lit (c # cs)
      then Some (take_digits nd (drop (length lit) (c # cs)))
      else re_search_number nd lit cs)"

text \<open>\<^verbatim>\<open>range(i, stop, step)\<close> for a positive step.\<close>

function py_range :: "nat \<Rightarrow> nat \<Rightarrow> nat \<Rightarrow> nat list" where
  "py_range i stop step =
     (if step = 0 \<or> stop \<le> i then [] else i # py_range (i + step) stop step)"
  by pat_completeness auto
termination
  by (relation "measure (\<lambda>(i, stop, step). stop - i)") auto

declare py_range.simps [simp del]

section \<open>Image pipeline\<close>

text \<open>\<^verbatim>\<open>get_img_desc\<close>: read the base64 file, invoke the model with the prompt, take
  \<^verbatim>\<open>resp_body['content'][0]['text']\<close> and replace the double quotes. Nothing is caught.\<close>

definition get_img_desc ::
  "'v services \<Rightarrow> string \<Rightarrow> string \<Rightarrow> (error + string) \<times> 'v event list" where
  "get_img_desc env image_file_path prompt =
     (case read_file env image_file_path of
        Inl e \<Rightarrow> (Inl e, [])
      | Inr input_image_b64 \<Rightarrow>
          (case claude env input_image_b64 prompt of
             Inl e \<Rightarrow> (Inl e, [Invoked input_image_b64 prompt])
           | Inr content \<Rightarrow>
               (case content of
                  [] \<Rightarrow> (Inl IndexError, [Invoked input_image_b64 prompt])
                | NoText # _ \<Rightarrow> (Inl KeyError, [Invoked input_image_b64 prompt])
                | TextBlock t # _ \<Rightarrow>
                    (Inr (replace_dquote t), [Invoked input_image_b64 prompt]))))"

text \<open>\<^verbatim>\<open>get_img_txt_embeddings\<close>: every exception of the call is caught and gives
  \<^verbatim>\<open>None\<close>.\<close>

definition get_img_txt_embeddings ::
  "'v services \<Rightarrow> string \<Rightarrow> 'v option \<times> 'v event list" where
  "get_img_txt_embeddings env prompt_data =
     (case titan env prompt_data of
        Inl e \<Rightarrow> (None, [Embedded prompt_data])
      | Inr embedding \<Rightarrow> (embedding, [Embedded prompt_data]))"

text \<open>The body of the \<^verbatim>\<open>try\<close> of \<^verbatim>\<open>process_image_data\<close> up to the construction of
  \<^verbatim>\<open>data\<close> and \<^verbatim>\<open>json_data\<close>.\<close>

definition image_record ::
  "config \<Rightarrow> 'v services \<Rightarrow> string
     \<Rightarrow> (error + 'v ingest_record list \<times> audit_record) \<times> 'v event list" where
  "image_record cfg env b64_file =
     (case get_img_desc env b64_file (entity_extraction_prompt cfg) of
        (Inl e, ev1) \<Rightarrow> (Inl e, ev1)
      | (Inr entities_extracted, ev1) \<Rightarrow>
          (case get_img_desc env b64_file (image_desc_prompt cfg) of
             (Inl e, ev2) \<Rightarrow> (Inl e, ev1 @ ev2)
           | (Inr description, ev2) \<Rightarrow>
               (let content_description = entities_extracted @ description;
                    (embedding, ev3) = get_img_txt_embeddings env content_description;
                    input_image_s3 = ''s3://'' @ bucket_name cfg @ ''/'' @ bucket_img_prefix cfg
                                      @ ''/'' @ path_stem b64_file @ image_file_extn cfg;
                    obj_name = path_stem b64_file @ image_file_extn cfg
                in case re_search_number (decimal_digits env) ''page_'' obj_name of
                     None \<Rightarrow> (Inl AttributeError, ev1 @ ev2 @ ev3)
                   | Some page \<Rightarrow>
                       (Inr ([\<lparr> file_path = input_image_s3,
                                 file_text = content_description,
                                 page_number = PageStr page,
                                 metadata_filename = obj_name,
                                 metadata_entities = entities_extracted,
                                 vector_embedding = embedding \<rparr>],
                             \<lparr> file_type = image_file_extn cfg,
                               file_name = obj_name,
                               audit_text = content_description,
                               audit_entities = entities_extracted,
                               audit_page_number = page \<rparr>),
                        ev1 @ ev2 @ ev3))))"

text \<open>\<^verbatim>\<open>process_image_data\<close> (its parameters \<^verbatim>\<open>i\<close> and \<^verbatim>\<open>total\<close> are not used; the
  dictionary \<^verbatim>\<open>bucket_info\<close> is read from \<open>cfg\<close>). The client is created outside the
  \<^verbatim>\<open>try\<close>; every exception inside it is caught and the function returns \<^verbatim>\<open>None\<close>.\<close>

definition process_image_data ::
  "config \<Rightarrow> 'v services \<Rightarrow> string \<Rightarrow> string
     \<Rightarrow> (error + audit_record option) \<times> 'v event list" where
  "process_image_data cfg env b64_file osi_endpoint =
     (if \<not> client_ok env b64_file then (Inl ClientError, [])
      else
        (case image_record cfg env b64_file of
           (Inl e, ev) \<Rightarrow> (Inr None, ev)
         | (Inr (data, json_data), ev) \<Rightarrow>
             (let fpath = os_path_join (json_img_dir cfg) (path_stem b64_file @ ''.json'')
              in if \<not> write_text env fpath json_data then (Inr None, ev)
                 else
                   (case requests_post env osi_endpoint data of
                      Inl e \<Rightarrow>
                        (Inr None, ev @ [Wrote fpath json_data, Posted osi_endpoint data])
                    | Inr r \<Rightarrow>
                        (Inr (Some json_data),
                         ev @ [Wrote fpath json_data, Posted osi_endpoint data])))))"

text \<open>\<^verbatim>\<open>image_chunks = [xs[i:i + n] for i in range(0, len(xs), n)]\<close>: \<^verbatim>\<open>range\<close> raises
  for a zero step and is empty for a negative one.\<close>

definition image_chunks :: "int \<Rightarrow> 'a list \<Rightarrow> error + 'a list list" where
  "image_chunks n b64_image_file_list =
     (if n = 0 then Inl ValueError
      else if n < 0 then Inr []
      else Inr (map (\<lambda>i. take (nat n) (drop i b64_image_file_list))
                    (py_range 0 (length b64_image_file_list) (nat n))))"

text \<open>One iteration of the chunk loop: \<^verbatim>\<open>ray.get\<close> on the tasks of the chunk. Every task
  runs. Ray runs them concurrently; no task reads what another one writes, and the events
  of the tasks are listed here task after task in list order. \<^verbatim>\<open>ray.get\<close> raises when a
  task raised, and the handler then adds the length of the chunk to
  \<^verbatim>\<open>erroneous_page_count\<close>. The list \<^verbatim>\<open>results\<close> is not read afterwards.\<close>

definition process_chunk ::
  "config \<Rightarrow> 'v services \<Rightarrow> string list \<Rightarrow> nat \<times> 'v event list" where
  "process_chunk cfg env image_chunk =
     (let results = map (\<lambda>b64_file. process_image_data cfg env b64_file (osi_img_endpoint cfg))
                        image_chunk
      in (if \<exists>r \<in> set results. isl (fst r) then length image_chunk else 0,
          concat (map snd results)))"

fun chunk_loop ::
  "config \<Rightarrow> 'v services \<Rightarrow> string list list \<Rightarrow> nat \<times> 'v event list" where
  "chunk_loop cfg env [] = (0, [])"
| "chunk_loop cfg env (image_chunk # rest) =
     (let (failed, ev) = process_chunk cfg env image_chunk;
          (erroneous_page_count, ev') = chunk_loop cfg env rest
      in (failed + erroneous_page_count, ev @ ev'))"

text \<open>The cell of the chunk loop: the final \<^verbatim>\<open>erroneous_page_count\<close> and the events.\<close>

definition image_driver ::
  "config \<Rightarrow> 'v services \<Rightarrow> string list \<Rightarrow> error + nat \<times> 'v event list" where
  "image_driver cfg env b64_image_file_list =
     (case image_chunks (parallel_inference_count cfg) b64_image_file_list of
        Inl e \<Rightarrow> Inl e
      | Inr chunks \<Rightarrow> Inr (chunk_loop cfg env chunks))"

section \<open>Text pipeline\<close>

text \<open>One iteration of the loop of \<^verbatim>\<open>get_continuous_chunks\<close> on the pair
  (\<^verbatim>\<open>continuous_chunk\<close>, \<^verbatim>\<open>current_chunk\<close>). \<^verbatim>\<open>current_chunk\<close> is emptied only in the
  branch that appends.\<close>

definition chunk_step :: "chunk \<Rightarrow> string list \<times> string list \<Rightarrow> string list \<times> string list" where
  "chunk_step i st =
     (let continuous_chunk = fst st;
          current_chunk =
            (case i of
               Tree label leaves \<Rightarrow> snd st @ [str_join '' '' (map fst leaves)]
             | Tagged token pos \<Rightarrow> snd st)
      in if current_chunk \<noteq> []
         then (let named_entity = str_join '' '' current_chunk
               in if named_entity \<notin> set continuous_chunk
                  then (continuous_chunk @ [named_entity], [])
                  else (continuous_chunk, current_chunk))
         else (continuous_chunk, current_chunk))"

definition continuous_chunks_of :: "chunk list \<Rightarrow> string list" where
  "continuous_chunks_of chunked = fst (fold chunk_step chunked ([], []))"

definition get_continuous_chunks :: "'v services \<Rightarrow> string \<Rightarrow> string list" where
  "get_continuous_chunks env txt = continuous_chunks_of (nltk_ne_chunk env txt)"

text \<open>\<^verbatim>\<open>process_text_data\<close> up to the construction of \<^verbatim>\<open>data\<close> and \<^verbatim>\<open>json_data\<close>. The
  POST body carries the driver's index, the local dictionary the regex group.\<close>

definition text_record ::
  "config \<Rightarrow> 'v services \<Rightarrow> string \<Rightarrow> int
     \<Rightarrow> (error + 'v ingest_record list \<times> audit_record) \<times> 'v event list" where
  "text_record cfg env txt_file txt_page_index =
     (case read_file env txt_file of
        Inl e \<Rightarrow> (Inl e, [])
      | Inr extracted_pdf_text \<Rightarrow>
          (let entities_str = str_join '', '' (get_continuous_chunks env extracted_pdf_text)
           in case get_text_embedding env extracted_pdf_text of
                Inl e \<Rightarrow> (Inl e, [Embedded extracted_pdf_text])
              | Inr embedding \<Rightarrow>
                  (let input_text_s3 = ''s3://'' @ bucket_name cfg @ ''/'' @ bucket_text_prefix cfg
                                        @ ''/'' @ path_stem txt_file @ text_file_extn cfg;
                       obj_name = path_stem txt_file @ text_file_extn cfg
                   in case re_search_number (decimal_digits env) ''text_'' obj_name of
                        None \<Rightarrow> (Inl AttributeError, [Embedded extracted_pdf_text])
                      | Some page \<Rightarrow>
                          (Inr ([\<lparr> file_path = input_text_s3,
                                    file_text = extracted_pdf_text,
                                    page_number = PageInt txt_page_index,
                                    metadata_filename = obj_name,
                                    metadata_entities = entities_str,
                                    vector_embedding = embedding \<rparr>],
                                \<lparr> file_type = text_file_extn cfg,
                                  file_name = path_stem txt_file,
                                  audit_text = extracted_pdf_text,
                                  audit_entities = entities_str,
                                  audit_page_number = page \<rparr>),
                           [Embedded extracted_pdf_text]))))"

text \<open>\<^verbatim>\<open>process_text_data\<close>: there is no \<^verbatim>\<open>try\<close>, every exception leaves the function.\<close>

definition process_text_data ::
  "config \<Rightarrow> 'v services \<Rightarrow> string \<Rightarrow> int \<Rightarrow> (error + unit) \<times> 'v event list" where
  "process_text_data cfg env txt_file txt_page_index =
     (case text_record cfg env txt_file txt_page_index of
        (Inl e, ev) \<Rightarrow> (Inl e, ev)
      | (Inr (data, json_data), ev) \<Rightarrow>
          (let fpath = os_path_join (json_txt_dir cfg) (path_stem txt_file @ ''.json'')
           in if \<not> write_text env fpath json_data then (Inl WriteError, ev)
              else
                (case requests_post env (osi_text_endpoint cfg) data of
                   Inl e \<Rightarrow>
                     (Inl e, ev @ [Wrote fpath json_data, Posted (osi_text_endpoint cfg) data])
                 | Inr r \<Rightarrow>
                     (Inr (), ev @ [Wrote fpath json_data, Posted (osi_text_endpoint cfg) data]))))"

text \<open>The loop of the driver over \<^verbatim>\<open>pdf_txt_file_list\<close>: no \<^verbatim>\<open>try\<close> either, so the
  first exception ends the loop.\<close>

fun text_loop ::
  "config \<Rightarrow> 'v services \<Rightarrow> int \<Rightarrow> string list \<Rightarrow> (error + unit) \<times> 'v event list" where
  "text_loop cfg env txt_page_index [] = (Inr (), [])"
| "text_loop cfg env txt_page_index (txt_file # rest) =
     (case process_text_data cfg env txt_file txt_page_index of
        (Inl e, ev) \<Rightarrow> (Inl e, ev)
      | (Inr u, ev) \<Rightarrow>
          (let (r, ev') = text_loop cfg env (txt_page_index + 1) rest in (r, ev @ ev')))"

text \<open>The cell of the text driver: \<^verbatim>\<open>txt_page_index\<close> starts at 1, the directory of the
  local copies is created, then the loop runs.\<close>

definition text_driver ::
  "config \<Rightarrow> 'v services \<Rightarrow> string list \<Rightarrow> (error + unit) \<times> 'v event list" where
  "text_driver cfg env pdf_txt_file_list =
     (if \<not> makedirs env (json_txt_dir cfg) then (Inl WriteError, [])
      else text_loop cfg env 1 pdf_txt_file_list)"

section \<open>Observations on a list of events\<close>

text \<open>
  The records that were POSTed, the POSTs themselves (endpoint and body), the local files
  that were written (path and content), and the model invocations (image data and
  prompt), each in the order of the events.
\<close>

fun posted_records :: "'v event list \<Rightarrow> 'v ingest_record list" where
  "posted_records [] = []"
| "posted_records (Posted url data # evs) = data @ posted_records evs"
| "posted_records (Invoked b p # evs) = posted_records evs"
| "posted_records (Embedded t # evs) = posted_records evs"
| "posted_records (Wrote p a # evs) = posted_records evs"

fun post_events :: "'v event list \<Rightarrow> (string \<times> 'v ingest_record list) list" where
  "post_events [] = []"
| "post_events (Posted url data # evs) = (url, data) # post_events evs"
| "post_events (Invoked b p # evs) = post_events evs"
| "post_events (Embedded t # evs) = post_events evs"
| "post_events (Wrote p a # evs) = post_events evs"

fun written_audits :: "'v event list \<Rightarrow> (string \<times> audit_record) list" where
  "written_audits [] = []"
| "written_audits (Wrote p a # evs) = (p, a) # written_audits evs"
| "written_audits (Invoked b p # evs) = written_audits evs"
| "written_audits (Embedded t # evs) = written_audits evs"
| "written_audits (Posted url data # evs) = written_audits evs"

fun invocations :: "'v event list \<Rightarrow> (string \<times> string) list" where
  "invocations [] = []"
| "invocations (Invoked b p # evs) = (b, p) # invocations evs"
| "invocations (Embedded t # evs) = invocations evs"
| "invocations (Wrote p a # evs) = invocations evs"
| "invocations (Posted url data # evs) = invocations evs"

section \<open>The text extractor in the words of the specification\<close>

text \<open>
  The specification describes the text extractor as flattening each named-entity subtree
  into a string and deduplicating the strings by exact value, keeping the order of first
  occurrence. \<open>entity_spans\<close> is the first step, \<open>spec_entity_list\<close> the whole; both
  follow the specification, not the notebook, and are compared with
  \<open>continuous_chunks_of\<close> below.
\<close>

definition entity_spans :: "chunk list \<Rightarrow> string list" where
  "entity_spans chunked =
     concat (map (\<lambda>i. case i of Tree label leaves \<Rightarrow> [str_join '' '' (map fst leaves)]
                              | Tagged token pos \<Rightarrow> []) chunked)"

definition spec_entity_list :: "chunk list \<Rightarrow> string list" where
  "spec_entity_list chunked =
     fold (\<lambda>e seen. if e \<in> set seen then seen else seen @ [e]) (entity_spans chunked) []"

section \<open>Concrete configurations and collaborators\<close>

text \<open>
  A configuration and a set of collaborators on which the pipelines can be run: every file
  can be read (the content of the file at \<open>p\<close> is the string \<open><p>\<close>, so that different
  files have different contents), the generative model answers the entity prompt with a
  text that contains two double quotes, every call succeeds. The table of decimal digits
  holds the ten ASCII digits and the ten Arabic-Indic digits U+0660 to U+0669 (two bytes
  each); the table of a Python runtime holds these and more. Each variant replaces what
  its name says and is \<open>demo_env\<close> otherwise.
\<close>

definition demo_cfg :: config where
  "demo_cfg = \<lparr> bucket_name = ''bucket'', bucket_img_prefix = ''img'', image_file_extn = ''.jpg'',
      bucket_text_prefix = ''text'', text_file_extn = ''.txt'', json_img_dir = ''json_img'',
      json_txt_dir = ''json_txt'', osi_img_endpoint = ''https://img/ingest'',
      osi_text_endpoint = ''https://txt/ingest'', entity_extraction_prompt = ''entities?'',
      image_desc_prompt = ''describe'', parallel_inference_count = 2 \<rparr>"

definition demo_env :: "nat services" where
  "demo_env = \<lparr> read_file = (\<lambda>p. Inr (''<'' @ p @ ''>'')),
      client_ok = (\<lambda>p. True),
      claude = (\<lambda>img prompt. Inr [TextBlock (if prompt = ''entities?''
                                             then ''Acme '' @ [CHR 0x22] @ ''Q3'' @ [CHR 0x22] @ ''; ''
                                             else ''A chart.'')]),
      titan = (\<lambda>t. Inr (Some (length t))),
      get_text_embedding = (\<lambda>t. Inr (Some (length t))),
      nltk_ne_chunk = (\<lambda>t. [Tree ''ORGANIZATION'' [(''Acme'', ''NNP'')], Tagged ''grew'' ''VBD'']),
      write_text = (\<lambda>p a. True),
      makedirs = (\<lambda>p. True),
      requests_post = (\<lambda>u d. Inr ''200 OK''),
      decimal_digits = map (\<lambda>c. [c]) ''0123456789''
        @ map (\<lambda>c. [CHR 0xD9, c])
              [CHR 0xA0, CHR 0xA1, CHR 0xA2, CHR 0xA3, CHR 0xA4,
               CHR 0xA5, CHR 0xA6, CHR 0xA7, CHR 0xA8, CHR 0xA9] \<rparr>"

definition offline_env :: "nat services" where
  "offline_env = demo_env\<lparr> requests_post := (\<lambda>u d. Inl PostError) \<rparr>"

definition no_embedding_env :: "nat services" where
  "no_embedding_env = demo_env\<lparr> titan := (\<lambda>t. Inl EmbeddingError),
                                 get_text_embedding := (\<lambda>t. Inr None) \<rparr>"

definition silent_env :: "nat services" where
  "silent_env = demo_env\<lparr> claude := (\<lambda>img prompt. Inr [TextBlock []]) \<rparr>"

definition faulty_env :: "nat services" where
  "faulty_env = demo_env\<lparr> claude := (\<lambda>img prompt. if img = ''<b64/page_1.b64>'' then Inl InvokeError
                                                   else claude demo_env img prompt) \<rparr>"

definition clientless_env :: "nat services" where
  "clientless_env = demo_env\<lparr> client_ok := (\<lambda>p. p \<noteq> ''b64/page_1.b64'') \<rparr>"

definition repeated_entity_env :: "nat services" where
  "repeated_entity_env = demo_env\<lparr> nltk_ne_chunk := (\<lambda>t.
      [Tree ''ORGANIZATION'' [(''Google'', ''NNP'')], Tagged ''hired'' ''VBD'',
       Tree ''PERSON'' [(''Alice'', ''NNP'')], Tagged ''.'' ''.'',
       Tree ''ORGANIZATION'' [(''Google'', ''NNP'')], Tagged ''hired'' ''VBD'',
       Tree ''PERSON'' [(''Bob'', ''NNP'')], Tagged ''.'' ''.'']) \<rparr>"

section \<open>Batch partitioning\<close>

lemma py_range_concat:
  "0 < n \<Longrightarrow> concat (map (\<lambda>j. take n (drop j xs)) (py_range i (length xs) n)) = drop i xs"
proof (induction i "length xs" n rule: py_range.induct)
  case (1 i step)
  show ?case
  proof (cases "length xs \<le> i")
    case True
    then show ?thesis by (simp add: py_range.simps)
  next
    case False
    with 1 have "concat (map (\<lambda>j. take step (drop j xs)) (py_range (i + step) (length xs) step))
                   = drop (i + step) xs"
      by simp
    moreover have "take step (drop i xs) @ drop (i + step) xs = drop i xs"
      by (metis add.commute append_take_drop_id drop_drop)
    ultimately show ?thesis using False 1(2)
      by (subst py_range.simps) simp
  qed
qed

lemma py_range_nth:
  "0 < n \<Longrightarrow> k < length (py_range i stop n) \<Longrightarrow> py_range i stop n ! k = i + k * n"
proof (induction i stop n arbitrary: k rule: py_range.induct)
  case (1 i stop step)
  from 1(3) have ne: "\<not> (step = 0 \<or> stop \<le> i)"
    by (subst (asm) py_range.simps) (auto split: if_splits)
  then have eq: "py_range i stop step = i # py_range (i + step) stop step"
    by (subst py_range.simps) simp
  show ?case
  proof (cases k)
    case 0
    then show ?thesis using eq by simp
  next
    case (Suc k')
    with 1(3) eq have "k' < length (py_range (i + step) stop step)" by simp
    with 1(1)[OF ne 1(2)] have "py_range (i + step) stop step ! k' = i + step + k' * step"
      by simp
    then show ?thesis using eq Suc by simp
  qed
qed

lemma py_range_bound:
  "0 < n \<Longrightarrow> j \<in> set (py_range i stop n) \<Longrightarrow> j < stop"
proof (induction i stop n rule: py_range.induct)
  case (1 i stop step)
  from 1(3) have ne: "\<not> (step = 0 \<or> stop \<le> i)"
    by (subst (asm) py_range.simps) (auto split: if_splits)
  then have eq: "py_range i stop step = i # py_range (i + step) stop step"
    by (subst py_range.simps) simp
  with 1 ne show ?case by auto
qed

lemma py_range_butlast:
  "0 < n \<Longrightarrow> j \<in> set (butlast (py_range i stop n)) \<Longrightarrow> j + n < stop"
proof (induction i stop n rule: py_range.induct)
  case (1 i stop step)
  from 1(3) have ne: "\<not> (step = 0 \<or> stop \<le> i)"
    by (subst (asm) py_range.simps) (auto split: if_splits)
  then have eq: "py_range i stop step = i # py_range (i + step) stop step"
    by (subst py_range.simps) simp
  show ?case
  proof (cases "py_range (i + step) stop step = []")
    case True
    with 1(3) eq show ?thesis by simp
  next
    case False
    then have "i + step < stop"
      by (subst (asm) py_range.simps) (auto split: if_splits)
    with 1 ne eq False show ?thesis by auto
  qed
qed

text \<open>
  Claim C4. For every list of artifacts and every batch size \<open>n \<ge> 1\<close>, the list
  comprehension that builds \<^verbatim>\<open>image_chunks\<close> returns batches whose concatenation is the
  input list (so count and order are kept); batch \<open>k\<close> is the contiguous slice of \<open>n\<close>
  elements starting at index \<open>k * n\<close>; no batch is empty or longer than \<open>n\<close>; and every
  batch but the last has exactly \<open>n\<close> elements.
\<close>

theorem image_chunks_partition:
  assumes "1 \<le> n"
  shows "\<exists>chunks. image_chunks n xs = Inr chunks
           \<and> concat chunks = xs
           \<and> (\<forall>k < length chunks. chunks ! k = take (nat n) (drop (k * nat n) xs))
           \<and> (\<forall>c \<in> set chunks. c \<noteq> [] \<and> length c \<le> nat n)
           \<and> (\<forall>c \<in> set (butlast chunks). length c = nat n)"
proof -
  let ?n = "nat n"
  let ?r = "py_range 0 (length xs) ?n"
  let ?f = "\<lambda>i. take ?n (drop i xs)"
  from assms have pos: "0 < ?n" by simp
  have eq: "image_chunks n xs = Inr (map ?f ?r)"
    using assms by (simp add: image_chunks_def)
  have c1: "concat (map ?f ?r) = xs"
    using py_range_concat[OF pos, of xs 0] by simp
  have c2: "\<forall>k < length (map ?f ?r). map ?f ?r ! k = take ?n (drop (k * ?n) xs)"
    using py_range_nth[OF pos, of _ 0 "length xs"] by simp
  have c3: "\<forall>c \<in> set (map ?f ?r). c \<noteq> [] \<and> length c \<le> ?n"
    using py_range_bound[OF pos, of _ 0 "length xs"] pos by fastforce
  have c4: "\<forall>c \<in> set (butlast (map ?f ?r)). length c = ?n"
    using py_range_butlast[OF pos, of _ 0 "length xs"]
    by (fastforce simp: map_butlast[symmetric])
  from eq c1 c2 c3 c4 show ?thesis by blast
qed

theorem image_chunks_partition_witness:
  "(1::int) \<le> 2
   \<and> (\<exists>chunks. image_chunks 2 [''p1'', ''p2'', ''p3'', ''p4'', ''p5''] = Inr chunks
        \<and> concat chunks = [''p1'', ''p2'', ''p3'', ''p4'', ''p5'']
        \<and> (\<forall>k < length chunks.
              chunks ! k = take (nat 2) (drop (k * nat 2) [''p1'', ''p2'', ''p3'', ''p4'', ''p5'']))
        \<and> (\<forall>c \<in> set chunks. c \<noteq> [] \<and> length c \<le> nat 2)
        \<and> (\<forall>c \<in> set (butlast chunks). length c = nat 2))"
proof -
  have h: "(1::int) \<le> 2" by simp
  from image_chunks_partition[OF h, of "[''p1'', ''p2'', ''p3'', ''p4'', ''p5'']"] h
  show ?thesis by blast
qed

section \<open>Evaluation and basic facts\<close>

lemmas eval_defs = process_image_data_def image_record_def get_img_desc_def get_img_txt_embeddings_def
  path_stem_def path_name_def os_path_join_def match_here_def digit_at_def take_digits.simps replace_dquote_def Let_def
  demo_env_def demo_cfg_def

lemmas text_eval_defs = text_driver_def process_text_data_def text_record_def
  get_continuous_chunks_def continuous_chunks_of_def chunk_step_def
  path_stem_def path_name_def os_path_join_def match_here_def digit_at_def take_digits.simps Let_def
  demo_env_def demo_cfg_def

lemmas run_defs = image_driver_def image_chunks_def py_range.simps process_chunk_def
  process_image_data_def image_record_def get_img_desc_def get_img_txt_embeddings_def
  path_stem_def path_name_def os_path_join_def match_here_def digit_at_def take_digits.simps replace_dquote_def Let_def
  demo_env_def demo_cfg_def

lemma posted_records_append [simp]:
  "posted_records (xs @ ys) = posted_records xs @ posted_records ys"
  by (induction xs rule: posted_records.induct) simp_all

lemma written_audits_append [simp]:
  "written_audits (xs @ ys) = written_audits xs @ written_audits ys"
  by (induction xs rule: written_audits.induct) simp_all

lemma invocations_append [simp]:
  "invocations (xs @ ys) = invocations xs @ invocations ys"
  by (induction xs rule: invocations.induct) simp_all

lemma replace_dquote_free: "CHR 0x22 \<notin> set (replace_dquote t)"
  by (auto simp: replace_dquote_def)

lemma get_img_desc_Inr:
  assumes "get_img_desc env f p = (Inr s, ev)"
  shows "\<exists>b t bs. read_file env f = Inr b \<and> claude env b p = Inr (TextBlock t # bs)
            \<and> s = replace_dquote t \<and> ev = [Invoked b p]"
  using assms
  by (auto simp: get_img_desc_def split: sum.splits list.splits block.splits)

lemma get_img_desc_Inl:
  assumes "get_img_desc env f p = (Inl e, ev)"
  shows "posted_records ev = [] \<and> written_audits ev = [] \<and> length (invocations ev) \<le> 1"
  using assms
  by (auto simp: get_img_desc_def split: sum.splits list.splits block.splits)

lemma get_img_desc_quiet:
  assumes "get_img_desc env f p = (r, ev)"
  shows "posted_records ev = [] \<and> written_audits ev = []"
  using assms
  by (auto simp: get_img_desc_def split: sum.splits list.splits block.splits)

lemma image_record_Inr:
  assumes "image_record cfg env f = (Inr (data, json), ev)"
  shows "\<exists>ents ev1 descr ev2 page.
           get_img_desc env f (entity_extraction_prompt cfg) = (Inr ents, ev1)
         \<and> get_img_desc env f (image_desc_prompt cfg) = (Inr descr, ev2)
         \<and> re_search_number (decimal_digits env) ''page_'' (path_stem f @ image_file_extn cfg) = Some page
         \<and> ev = ev1 @ ev2 @ [Embedded (ents @ descr)]
         \<and> data = [\<lparr> file_path = ''s3://'' @ bucket_name cfg @ ''/'' @ bucket_img_prefix cfg
                                      @ ''/'' @ path_stem f @ image_file_extn cfg,
                      file_text = ents @ descr,
                      page_number = PageStr page,
                      metadata_filename = path_stem f @ image_file_extn cfg,
                      metadata_entities = ents,
                      vector_embedding = fst (get_img_txt_embeddings env (ents @ descr)) \<rparr>]
         \<and> json = \<lparr> file_type = image_file_extn cfg,
                      file_name = path_stem f @ image_file_extn cfg,
                      audit_text = ents @ descr,
                      audit_entities = ents,
                      audit_page_number = page \<rparr>"
  using assms
  by (auto simp: image_record_def get_img_txt_embeddings_def Let_def
           split: sum.splits prod.splits option.splits)

lemma image_record_ok:
  assumes "get_img_desc env f (entity_extraction_prompt cfg) = (Inr ents, ev1)"
      and "get_img_desc env f (image_desc_prompt cfg) = (Inr descr, ev2)"
      and "re_search_number (decimal_digits env) ''page_'' (path_stem f @ image_file_extn cfg) = Some page"
  shows "image_record cfg env f =
          (Inr ([\<lparr> file_path = ''s3://'' @ bucket_name cfg @ ''/'' @ bucket_img_prefix cfg
                                      @ ''/'' @ path_stem f @ image_file_extn cfg,
                      file_text = ents @ descr,
                      page_number = PageStr page,
                      metadata_filename = path_stem f @ image_file_extn cfg,
                      metadata_entities = ents,
                      vector_embedding = fst (get_img_txt_embeddings env (ents @ descr)) \<rparr>],
                 \<lparr> file_type = image_file_extn cfg,
                      file_name = path_stem f @ image_file_extn cfg,
                      audit_text = ents @ descr,
                      audit_entities = ents,
                      audit_page_number = page \<rparr>),
           ev1 @ ev2 @ [Embedded (ents @ descr)])"
  using assms
  by (auto simp: image_record_def get_img_txt_embeddings_def Let_def
           split: sum.splits prod.splits option.splits)

lemma image_record_quiet:
  assumes "image_record cfg env f = (r, ev)"
  shows "posted_records ev = [] \<and> written_audits ev = []"
  using assms
  by (auto simp: image_record_def get_img_txt_embeddings_def Let_def
           split: sum.splits prod.splits option.splits dest: get_img_desc_quiet)


lemma process_image_data_trace:
  assumes "client_ok env f" and "image_record cfg env f = (Inr (data, json), ev)"
      and "write_text env (os_path_join (json_img_dir cfg) (path_stem f @ ''.json'')) json"
  shows "snd (process_image_data cfg env f url)
           = ev @ [Wrote (os_path_join (json_img_dir cfg) (path_stem f @ ''.json'')) json,
                   Posted url data]"
    and "\<not> isl (fst (process_image_data cfg env f url))"
  using assms by (auto simp: process_image_data_def Let_def split: sum.splits)

lemma process_image_data_posted:
  "posted_records (snd (process_image_data cfg env f url)) = []
   \<or> (\<exists>data json ev. image_record cfg env f = (Inr (data, json), ev)
         \<and> posted_records (snd (process_image_data cfg env f url)) = data
         \<and> written_audits (snd (process_image_data cfg env f url))
             = [(os_path_join (json_img_dir cfg) (path_stem f @ ''.json''), json)])"
  by (auto simp: process_image_data_def Let_def split: sum.splits prod.splits
           dest: image_record_quiet)

lemma process_image_data_written:
  "written_audits (snd (process_image_data cfg env f url)) = []
   \<or> (\<exists>data json ev. image_record cfg env f = (Inr (data, json), ev)
         \<and> written_audits (snd (process_image_data cfg env f url))
             = [(os_path_join (json_img_dir cfg) (path_stem f @ ''.json''), json)])"
  by (auto simp: process_image_data_def Let_def split: sum.splits prod.splits
           dest: image_record_quiet)


lemma process_chunk_single:
  "\<not> isl (fst (process_image_data cfg env f (osi_img_endpoint cfg)))
     \<Longrightarrow> fst (process_chunk cfg env [f]) = 0"
  by (simp add: process_chunk_def)

lemma text_record_quiet:
  assumes "text_record cfg env t idx = (r, ev)"
  shows "posted_records ev = [] \<and> written_audits ev = []"
  using assms
  by (auto simp: text_record_def Let_def split: sum.splits option.splits)

lemma text_record_ok:
  assumes "read_file env t = Inr page_text" and "get_text_embedding env page_text = Inr v"
      and "re_search_number (decimal_digits env) ''text_'' (path_stem t @ text_file_extn cfg) = Some page"
  shows "text_record cfg env t idx =
          (Inr ([\<lparr> file_path = ''s3://'' @ bucket_name cfg @ ''/'' @ bucket_text_prefix cfg
                                    @ ''/'' @ path_stem t @ text_file_extn cfg,
                    file_text = page_text,
                    page_number = PageInt idx,
                    metadata_filename = path_stem t @ text_file_extn cfg,
                    metadata_entities = str_join '', '' (get_continuous_chunks env page_text),
                    vector_embedding = v \<rparr>],
                 \<lparr> file_type = text_file_extn cfg,
                   file_name = path_stem t,
                   audit_text = page_text,
                   audit_entities = str_join '', '' (get_continuous_chunks env page_text),
                   audit_page_number = page \<rparr>),
           [Embedded page_text])"
  using assms by (simp add: text_record_def Let_def)


lemma process_text_data_trace:
  assumes "text_record cfg env t idx = (Inr (data, json), ev)"
      and "write_text env (os_path_join (json_txt_dir cfg) (path_stem t @ ''.json'')) json"
  shows "snd (process_text_data cfg env t idx)
           = ev @ [Wrote (os_path_join (json_txt_dir cfg) (path_stem t @ ''.json'')) json,
                   Posted (osi_text_endpoint cfg) data]"
  using assms by (auto simp: process_text_data_def Let_def split: sum.splits)


lemma get_img_desc_post_irrelevant:
  "get_img_desc (env\<lparr> requests_post := post' \<rparr>) f p = get_img_desc env f p"
  by (simp add: get_img_desc_def split: sum.splits)

lemma get_img_txt_embeddings_post_irrelevant:
  "get_img_txt_embeddings (env\<lparr> requests_post := post' \<rparr>) t = get_img_txt_embeddings env t"
  by (simp add: get_img_txt_embeddings_def)

lemma image_record_post_irrelevant:
  "image_record cfg (env\<lparr> requests_post := post' \<rparr>) f = image_record cfg env f"
  by (simp add: image_record_def get_img_desc_post_irrelevant
                get_img_txt_embeddings_post_irrelevant
           cong: prod.case_cong sum.case_cong)

lemma text_record_post_irrelevant:
  "text_record cfg (env\<lparr> requests_post := post' \<rparr>) t idx = text_record cfg env t idx"
  by (simp add: text_record_def get_continuous_chunks_def Let_def split: sum.splits)

lemma process_image_data_post_irrelevant:
  "snd (process_image_data cfg (env\<lparr> requests_post := post' \<rparr>) f url)
     = snd (process_image_data cfg env f url)"
  by (simp add: process_image_data_def image_record_post_irrelevant Let_def
           split: sum.splits prod.splits)

lemma process_text_data_post_irrelevant:
  "snd (process_text_data cfg (env\<lparr> requests_post := post' \<rparr>) t idx)
     = snd (process_text_data cfg env t idx)"
  by (simp add: process_text_data_def text_record_post_irrelevant Let_def
           split: sum.splits prod.splits)

lemma demo_page_1:
  "process_image_data demo_cfg demo_env ''b64/page_1.b64'' ''u'' =
     (Inr (Some \<lparr> file_type = ''.jpg'', file_name = ''page_1.jpg'', audit_text = ''Acme 'Q3'; A chart.'',
                   audit_entities = ''Acme 'Q3'; '', audit_page_number = ''1'' \<rparr>),
      [Invoked ''<b64/page_1.b64>'' ''entities?'', Invoked ''<b64/page_1.b64>'' ''describe'',
       Embedded ''Acme 'Q3'; A chart.'',
       Wrote ''json_img/page_1.json'' \<lparr> file_type = ''.jpg'', file_name = ''page_1.jpg'', audit_text = ''Acme 'Q3'; A chart.'',
                   audit_entities = ''Acme 'Q3'; '', audit_page_number = ''1'' \<rparr>,
       Posted ''u'' [\<lparr> file_path = ''s3://bucket/img/page_1.jpg'', file_text = ''Acme 'Q3'; A chart.'',
                        page_number = PageStr ''1'', metadata_filename = ''page_1.jpg'',
                        metadata_entities = ''Acme 'Q3'; '', vector_embedding = Some 19 \<rparr>]])"
  by (simp add: eval_defs)

lemma no_embedding_page_1:
  "process_image_data demo_cfg no_embedding_env ''b64/page_1.b64'' ''u'' =
     (Inr (Some \<lparr> file_type = ''.jpg'', file_name = ''page_1.jpg'', audit_text = ''Acme 'Q3'; A chart.'',
                   audit_entities = ''Acme 'Q3'; '', audit_page_number = ''1'' \<rparr>),
      [Invoked ''<b64/page_1.b64>'' ''entities?'', Invoked ''<b64/page_1.b64>'' ''describe'',
       Embedded ''Acme 'Q3'; A chart.'',
       Wrote ''json_img/page_1.json'' \<lparr> file_type = ''.jpg'', file_name = ''page_1.jpg'', audit_text = ''Acme 'Q3'; A chart.'',
                   audit_entities = ''Acme 'Q3'; '', audit_page_number = ''1'' \<rparr>,
       Posted ''u'' [\<lparr> file_path = ''s3://bucket/img/page_1.jpg'', file_text = ''Acme 'Q3'; A chart.'',
                        page_number = PageStr ''1'', metadata_filename = ''page_1.jpg'',
                        metadata_entities = ''Acme 'Q3'; '', vector_embedding = None \<rparr>]])"
  by (simp add: eval_defs no_embedding_env_def)

section \<open>The page-number pattern\<close>

lemma digit_at_Nil [simp]: "digit_at nd [] = None"
  by (auto simp: digit_at_def find_None_iff)

lemma match_here_Nil [simp]: "\<not> match_here nd lit []"
  by (simp add: match_here_def)




section \<open>Image pipeline\<close>

subsection \<open>Double quotes\<close>

lemma image_record_dquote_free:
  assumes "image_record cfg env f = (Inr (data, json), ev)"
  shows "(\<forall>r \<in> set data. CHR 0x22 \<notin> set (file_text r) \<and> CHR 0x22 \<notin> set (metadata_entities r))
         \<and> CHR 0x22 \<notin> set (audit_text json) \<and> CHR 0x22 \<notin> set (audit_entities json)"
proof -
  from image_record_Inr[OF assms] obtain ents ev1 descr ev2 page where
    e: "get_img_desc env f (entity_extraction_prompt cfg) = (Inr ents, ev1)" and
    d: "get_img_desc env f (image_desc_prompt cfg) = (Inr descr, ev2)" and
    data: "\<forall>r \<in> set data. file_text r = ents @ descr \<and> metadata_entities r = ents" and
    json: "audit_text json = ents @ descr \<and> audit_entities json = ents"
    by auto
  from get_img_desc_Inr[OF e] have "CHR 0x22 \<notin> set ents"
    using replace_dquote_free by auto
  moreover from get_img_desc_Inr[OF d] have "CHR 0x22 \<notin> set descr"
    using replace_dquote_free by auto
  ultimately show ?thesis using data json by simp
qed

text \<open>
  Claim C10. No string returned by \<^verbatim>\<open>get_img_desc\<close> contains a double quote: the result
  is the raw text of the response with every double quote replaced by a single quote, of
  the same length and otherwise unchanged. Hence, for every image artifact, the
  \<^verbatim>\<open>file_text\<close> and \<^verbatim>\<open>metadata.entities\<close> of every record that is POSTed, and the
  \<^verbatim>\<open>text\<close> and \<^verbatim>\<open>entities\<close> of every local copy that is written, are free of
  double quotes.
\<close>

theorem image_strings_have_no_double_quote:
  "(\<forall>s ev. get_img_desc env f prompt = (Inr s, ev) \<longrightarrow> CHR 0x22 \<notin> set s)
   \<and> (\<forall>b t bs. read_file env f = Inr b \<and> claude env b prompt = Inr (TextBlock t # bs) \<longrightarrow>
          fst (get_img_desc env f prompt) = Inr (replace_dquote t)
        \<and> length (replace_dquote t) = length t
        \<and> (\<forall>i < length t. replace_dquote t ! i = (if t ! i = CHR 0x22 then CHR 0x27 else t ! i)))
   \<and> (\<forall>r \<in> set (posted_records (snd (process_image_data cfg env f url))).
          CHR 0x22 \<notin> set (file_text r) \<and> CHR 0x22 \<notin> set (metadata_entities r))
   \<and> (\<forall>a \<in> set (written_audits (snd (process_image_data cfg env f url))).
          CHR 0x22 \<notin> set (audit_text (snd a)) \<and> CHR 0x22 \<notin> set (audit_entities (snd a)))"
proof (intro conjI)
  show "\<forall>s ev. get_img_desc env f prompt = (Inr s, ev) \<longrightarrow> CHR 0x22 \<notin> set s"
    using get_img_desc_Inr[of env f prompt] replace_dquote_free by blast
next
  show "\<forall>b t bs. read_file env f = Inr b \<and> claude env b prompt = Inr (TextBlock t # bs) \<longrightarrow>
          fst (get_img_desc env f prompt) = Inr (replace_dquote t)
        \<and> length (replace_dquote t) = length t
        \<and> (\<forall>i < length t. replace_dquote t ! i = (if t ! i = CHR 0x22 then CHR 0x27 else t ! i))"
    by (simp add: get_img_desc_def replace_dquote_def)
next
  show "\<forall>r \<in> set (posted_records (snd (process_image_data cfg env f url))).
          CHR 0x22 \<notin> set (file_text r) \<and> CHR 0x22 \<notin> set (metadata_entities r)"
    using process_image_data_posted[of cfg env f url] image_record_dquote_free[of cfg env f]
    by fastforce
next
  show "\<forall>a \<in> set (written_audits (snd (process_image_data cfg env f url))).
          CHR 0x22 \<notin> set (audit_text (snd a)) \<and> CHR 0x22 \<notin> set (audit_entities (snd a))"
    using process_image_data_written[of cfg env f url] image_record_dquote_free[of cfg env f]
    by fastforce
qed

theorem image_strings_have_no_double_quote_witness:
  "claude demo_env ''<b64/page_1.b64>'' ''entities?''
     = Inr [TextBlock (''Acme '' @ [CHR 0x22] @ ''Q3'' @ [CHR 0x22] @ ''; '')]
   \<and> fst (get_img_desc demo_env ''b64/page_1.b64'' ''entities?'') = Inr ''Acme 'Q3'; ''
   \<and> length (posted_records (snd (process_image_data demo_cfg demo_env ''b64/page_1.b64'' ''u''))) = 1
   \<and> CHR 0x22 \<notin> set (file_text (hd (posted_records
                          (snd (process_image_data demo_cfg demo_env ''b64/page_1.b64'' ''u'')))))
   \<and> CHR 0x22 \<notin> set (metadata_entities (hd (posted_records
                          (snd (process_image_data demo_cfg demo_env ''b64/page_1.b64'' ''u'')))))
   \<and> length (written_audits (snd (process_image_data demo_cfg demo_env ''b64/page_1.b64'' ''u''))) = 1
   \<and> CHR 0x22 \<notin> set (audit_text (snd (hd (written_audits
                          (snd (process_image_data demo_cfg demo_env ''b64/page_1.b64'' ''u''))))))"
proof -
  note t = image_strings_have_no_double_quote
             [of demo_env "''b64/page_1.b64''" "''entities?''" demo_cfg "''u''"]
  have c: "claude demo_env ''<b64/page_1.b64>'' ''entities?''
             = Inr [TextBlock (''Acme '' @ [CHR 0x22] @ ''Q3'' @ [CHR 0x22] @ ''; '')]"
    by (simp add: demo_env_def)
  have r: "read_file demo_env ''b64/page_1.b64'' = Inr ''<b64/page_1.b64>''"
    by (simp add: demo_env_def)
  from t r c have g: "fst (get_img_desc demo_env ''b64/page_1.b64'' ''entities?'')
                        = Inr (replace_dquote (''Acme '' @ [CHR 0x22] @ ''Q3'' @ [CHR 0x22] @ ''; ''))"
    by blast
  have p: "length (posted_records (snd (process_image_data demo_cfg demo_env ''b64/page_1.b64'' ''u''))) = 1"
    by (simp add: demo_page_1)
  then have "hd (posted_records (snd (process_image_data demo_cfg demo_env ''b64/page_1.b64'' ''u'')))
              \<in> set (posted_records (snd (process_image_data demo_cfg demo_env ''b64/page_1.b64'' ''u'')))"
    by (metis hd_in_set length_0_conv zero_neq_one)
  with t have p2: "CHR 0x22 \<notin> set (file_text (hd (posted_records
                          (snd (process_image_data demo_cfg demo_env ''b64/page_1.b64'' ''u'')))))
     \<and> CHR 0x22 \<notin> set (metadata_entities (hd (posted_records
                          (snd (process_image_data demo_cfg demo_env ''b64/page_1.b64'' ''u'')))))"
    by blast
  have w: "length (written_audits (snd (process_image_data demo_cfg demo_env ''b64/page_1.b64'' ''u''))) = 1"
    by (simp add: demo_page_1)
  then have "hd (written_audits (snd (process_image_data demo_cfg demo_env ''b64/page_1.b64'' ''u'')))
              \<in> set (written_audits (snd (process_image_data demo_cfg demo_env ''b64/page_1.b64'' ''u'')))"
    by (metis hd_in_set length_0_conv zero_neq_one)
  with t have w2: "CHR 0x22 \<notin> set (audit_text (snd (hd (written_audits
                          (snd (process_image_data demo_cfg demo_env ''b64/page_1.b64'' ''u''))))))"
    by blast
  from c g p p2 w w2 show ?thesis by (simp add: replace_dquote_def)
qed

subsection \<open>The two model invocations\<close>

lemma process_image_data_extraction_failed:
  assumes "client_ok env f"
      and "isl (fst (get_img_desc env f (entity_extraction_prompt cfg)))
           \<or> isl (fst (get_img_desc env f (image_desc_prompt cfg)))"
  shows "fst (process_image_data cfg env f url) = Inr None"
    and "posted_records (snd (process_image_data cfg env f url)) = []"
    and "written_audits (snd (process_image_data cfg env f url)) = []"
proof -
  have "isl (fst (image_record cfg env f))"
    using assms(2)
    by (auto simp: image_record_def Let_def split: sum.splits prod.splits option.splits)
  then obtain e ev where r: "image_record cfg env f = (Inl e, ev)"
    by (cases "image_record cfg env f") (auto simp: isl_def)
  from image_record_quiet[OF r] have q: "posted_records ev = []" "written_audits ev = []"
    by simp_all
  from r assms(1) q show "fst (process_image_data cfg env f url) = Inr None"
    and "posted_records (snd (process_image_data cfg env f url)) = []"
    and "written_audits (snd (process_image_data cfg env f url)) = []"
    by (simp_all add: process_image_data_def)
qed

lemma process_image_data_first_call_failed:
  assumes "isl (fst (get_img_desc env f (entity_extraction_prompt cfg)))"
  shows "length (invocations (snd (process_image_data cfg env f url))) \<le> 1"
proof (cases "client_ok env f")
  case False
  then show ?thesis by (simp add: process_image_data_def)
next
  case True
  from assms obtain e ev where g: "get_img_desc env f (entity_extraction_prompt cfg) = (Inl e, ev)"
    by (cases "get_img_desc env f (entity_extraction_prompt cfg)") (auto simp: isl_def)
  then have "image_record cfg env f = (Inl e, ev)"
    by (simp add: image_record_def)
  with True get_img_desc_Inl[OF g] show ?thesis
    by (simp add: process_image_data_def)
qed

lemma process_image_data_invocations:
  assumes "client_ok env f" and "read_file env f = Inr b"
      and "get_img_desc env f (entity_extraction_prompt cfg) = (Inr ents, ev1)"
      and "get_img_desc env f (image_desc_prompt cfg) = (Inr descr, ev2)"
  shows "invocations (snd (process_image_data cfg env f url))
           = [(b, entity_extraction_prompt cfg), (b, image_desc_prompt cfg)]"
proof -
  from get_img_desc_Inr[OF assms(3)] assms(2) have e1: "ev1 = [Invoked b (entity_extraction_prompt cfg)]"
    by auto
  from get_img_desc_Inr[OF assms(4)] assms(2) have e2: "ev2 = [Invoked b (image_desc_prompt cfg)]"
    by auto
  show ?thesis
    using assms(1,3,4) e1 e2
    by (auto simp: process_image_data_def image_record_def get_img_txt_embeddings_def Let_def
             split: sum.splits option.splits)
qed

lemma process_image_data_posted_text:
  assumes "get_img_desc env f (entity_extraction_prompt cfg) = (Inr ents, ev1)"
      and "get_img_desc env f (image_desc_prompt cfg) = (Inr descr, ev2)"
  shows "\<forall>r \<in> set (posted_records (snd (process_image_data cfg env f url))).
           file_text r = ents @ descr \<and> metadata_entities r = ents"
proof -
  have "\<And>data json ev. image_record cfg env f = (Inr (data, json), ev)
          \<Longrightarrow> \<forall>r \<in> set data. file_text r = ents @ descr \<and> metadata_entities r = ents"
    using assms by (auto dest!: image_record_Inr)
  with process_image_data_posted[of cfg env f url] show ?thesis by fastforce
qed

text \<open>
  Claim C6, as the code has it. When both calls of \<^verbatim>\<open>get_img_desc\<close> return, the model was
  invoked exactly twice on the image, first with the entity prompt and then with the
  description prompt, and every record POSTed carries the entity text followed by the
  description as \<^verbatim>\<open>file_text\<close> and the entity text as \<^verbatim>\<open>metadata.entities\<close>. When one
  of the two calls raises, \<^verbatim>\<open>process_image_data\<close> returns \<^verbatim>\<open>None\<close> without raising,
  writes no local copy and POSTs nothing; when the first call raises the model is invoked
  at most once. A call raises exactly when the invocation raises, the content list of the
  response is empty, or its first element has no text; a response whose text is the empty
  string is not a failure. The events of the other artifacts of a chunk do not depend on
  the artifact that failed.
\<close>

theorem image_extractor_calls_and_failures:
  "(client_ok env f \<and> read_file env f = Inr b
      \<and> get_img_desc env f (entity_extraction_prompt cfg) = (Inr ents, ev1)
      \<and> get_img_desc env f (image_desc_prompt cfg) = (Inr descr, ev2) \<longrightarrow>
        invocations (snd (process_image_data cfg env f url))
          = [(b, entity_extraction_prompt cfg), (b, image_desc_prompt cfg)]
      \<and> (\<forall>r \<in> set (posted_records (snd (process_image_data cfg env f url))).
            file_text r = ents @ descr \<and> metadata_entities r = ents))
   \<and> (client_ok env f
      \<and> (isl (fst (get_img_desc env f (entity_extraction_prompt cfg)))
         \<or> isl (fst (get_img_desc env f (image_desc_prompt cfg)))) \<longrightarrow>
        fst (process_image_data cfg env f url) = Inr None
      \<and> posted_records (snd (process_image_data cfg env f url)) = []
      \<and> written_audits (snd (process_image_data cfg env f url)) = [])
   \<and> (isl (fst (get_img_desc env f (entity_extraction_prompt cfg))) \<longrightarrow>
        length (invocations (snd (process_image_data cfg env f url))) \<le> 1)
   \<and> (read_file env f = Inr b \<longrightarrow>
        fst (get_img_desc env f p)
          = (case claude env b p of
               Inl e \<Rightarrow> Inl e
             | Inr [] \<Rightarrow> Inl IndexError
             | Inr (NoText # rest) \<Rightarrow> Inl KeyError
             | Inr (TextBlock t # rest) \<Rightarrow> Inr (replace_dquote t)))
   \<and> snd (process_chunk cfg env (before @ f # after))
        = snd (process_chunk cfg env before)
          @ snd (process_image_data cfg env f (osi_img_endpoint cfg))
          @ snd (process_chunk cfg env after)"
proof (intro conjI impI)
  assume "client_ok env f \<and> read_file env f = Inr b
      \<and> get_img_desc env f (entity_extraction_prompt cfg) = (Inr ents, ev1)
      \<and> get_img_desc env f (image_desc_prompt cfg) = (Inr descr, ev2)"
  then show "invocations (snd (process_image_data cfg env f url))
          = [(b, entity_extraction_prompt cfg), (b, image_desc_prompt cfg)]"
    and "\<forall>r \<in> set (posted_records (snd (process_image_data cfg env f url))).
            file_text r = ents @ descr \<and> metadata_entities r = ents"
    using process_image_data_invocations[of env f b cfg ents ev1 descr ev2 url]
          process_image_data_posted_text[of env f cfg ents ev1 descr ev2 url]
    by blast+
next
  assume "client_ok env f
      \<and> (isl (fst (get_img_desc env f (entity_extraction_prompt cfg)))
         \<or> isl (fst (get_img_desc env f (image_desc_prompt cfg))))"
  then show "fst (process_image_data cfg env f url) = Inr None"
    and "posted_records (snd (process_image_data cfg env f url)) = []"
    and "written_audits (snd (process_image_data cfg env f url)) = []"
    using process_image_data_extraction_failed[of env f cfg url] by blast+
next
  assume "isl (fst (get_img_desc env f (entity_extraction_prompt cfg)))"
  then show "length (invocations (snd (process_image_data cfg env f url))) \<le> 1"
    by (rule process_image_data_first_call_failed)
next
  assume "read_file env f = Inr b"
  then show "fst (get_img_desc env f p)
          = (case claude env b p of
               Inl e \<Rightarrow> Inl e
             | Inr [] \<Rightarrow> Inl IndexError
             | Inr (NoText # rest) \<Rightarrow> Inl KeyError
             | Inr (TextBlock t # rest) \<Rightarrow> Inr (replace_dquote t))"
    by (simp add: get_img_desc_def split: sum.splits list.splits block.splits)
next
  show "snd (process_chunk cfg env (before @ f # after))
        = snd (process_chunk cfg env before)
          @ snd (process_image_data cfg env f (osi_img_endpoint cfg))
          @ snd (process_chunk cfg env after)"
    by (simp add: process_chunk_def Let_def)
qed

theorem image_extractor_calls_and_failures_witness:
  "invocations (snd (process_image_data demo_cfg demo_env ''b64/page_1.b64'' ''u''))
     = [(''<b64/page_1.b64>'', ''entities?''), (''<b64/page_1.b64>'', ''describe'')]
   \<and> map file_text (posted_records (snd (process_image_data demo_cfg demo_env ''b64/page_1.b64'' ''u'')))
       = [''Acme 'Q3'; '' @ ''A chart.'']
   \<and> isl (fst (get_img_desc faulty_env ''b64/page_1.b64'' (entity_extraction_prompt demo_cfg)))
   \<and> fst (process_image_data demo_cfg faulty_env ''b64/page_1.b64'' ''u'') = Inr None
   \<and> posted_records (snd (process_image_data demo_cfg faulty_env ''b64/page_1.b64'' ''u'')) = []
   \<and> written_audits (snd (process_image_data demo_cfg faulty_env ''b64/page_1.b64'' ''u'')) = []
   \<and> length (invocations (snd (process_image_data demo_cfg faulty_env ''b64/page_1.b64'' ''u''))) \<le> 1"
proof -
  note ok = image_extractor_calls_and_failures
     [of demo_env "''b64/page_1.b64''" "''<b64/page_1.b64>''" demo_cfg
         "''Acme 'Q3'; ''" "[Invoked ''<b64/page_1.b64>'' ''entities?'']"
         "''A chart.''" "[Invoked ''<b64/page_1.b64>'' ''describe'']" "''u''"]
  note bad = image_extractor_calls_and_failures
     [of faulty_env "''b64/page_1.b64''" _ demo_cfg _ _ _ _ "''u''"]
  have h1: "client_ok demo_env ''b64/page_1.b64''"
    and h2: "read_file demo_env ''b64/page_1.b64'' = Inr ''<b64/page_1.b64>''"
    by (simp_all add: demo_env_def)
  have h3: "get_img_desc demo_env ''b64/page_1.b64'' (entity_extraction_prompt demo_cfg)
              = (Inr ''Acme 'Q3'; '', [Invoked ''<b64/page_1.b64>'' ''entities?''])"
    by (simp add: eval_defs)
  have h4: "get_img_desc demo_env ''b64/page_1.b64'' (image_desc_prompt demo_cfg)
              = (Inr ''A chart.'', [Invoked ''<b64/page_1.b64>'' ''describe''])"
    by (simp add: eval_defs)
  from ok h1 h2 h3 h4
  have c1: "invocations (snd (process_image_data demo_cfg demo_env ''b64/page_1.b64'' ''u''))
              = [(''<b64/page_1.b64>'', entity_extraction_prompt demo_cfg),
                 (''<b64/page_1.b64>'', image_desc_prompt demo_cfg)]"
    and c2: "\<forall>r \<in> set (posted_records (snd (process_image_data demo_cfg demo_env ''b64/page_1.b64'' ''u''))).
               file_text r = ''Acme 'Q3'; '' @ ''A chart.''"
    by simp_all
  have l: "length (posted_records (snd (process_image_data demo_cfg demo_env ''b64/page_1.b64'' ''u''))) = 1"
    by (simp add: demo_page_1)
  from c2 l have c2': "map file_text (posted_records (snd (process_image_data demo_cfg demo_env ''b64/page_1.b64'' ''u'')))
       = [''Acme 'Q3'; '' @ ''A chart.'']"
    by (cases "posted_records (snd (process_image_data demo_cfg demo_env ''b64/page_1.b64'' ''u''))") auto
  have b1: "client_ok faulty_env ''b64/page_1.b64''"
    by (simp add: faulty_env_def demo_env_def)
  have b2: "isl (fst (get_img_desc faulty_env ''b64/page_1.b64'' (entity_extraction_prompt demo_cfg)))"
    by (simp add: get_img_desc_def faulty_env_def demo_env_def)
  from bad b1 b2
  have c3: "fst (process_image_data demo_cfg faulty_env ''b64/page_1.b64'' ''u'') = Inr None
            \<and> posted_records (snd (process_image_data demo_cfg faulty_env ''b64/page_1.b64'' ''u'')) = []
            \<and> written_audits (snd (process_image_data demo_cfg faulty_env ''b64/page_1.b64'' ''u'')) = []
            \<and> length (invocations (snd (process_image_data demo_cfg faulty_env ''b64/page_1.b64'' ''u''))) \<le> 1"
    by blast
  from c1 c2' b2 c3 show ?thesis by (simp add: demo_cfg_def)
qed

text \<open>
  Claim C6 as stated fails when the model returns an empty text for both prompts: no
  exception is raised, and a record with empty \<^verbatim>\<open>file_text\<close> is written and POSTed.
\<close>

theorem empty_model_response_counterexample:
  "claude silent_env ''<b64/page_1.b64>'' (entity_extraction_prompt demo_cfg) = Inr [TextBlock []]
   \<and> claude silent_env ''<b64/page_1.b64>'' (image_desc_prompt demo_cfg) = Inr [TextBlock []]
   \<and> get_img_desc silent_env ''b64/page_1.b64'' (entity_extraction_prompt demo_cfg)
       = (Inr [], [Invoked ''<b64/page_1.b64>'' ''entities?''])
   \<and> process_image_data demo_cfg silent_env ''b64/page_1.b64'' ''u'' =
       (Inr (Some \<lparr> file_type = ''.jpg'', file_name = ''page_1.jpg'', audit_text = [],
                     audit_entities = [], audit_page_number = ''1'' \<rparr>),
        [Invoked ''<b64/page_1.b64>'' ''entities?'', Invoked ''<b64/page_1.b64>'' ''describe'',
         Embedded [],
         Wrote ''json_img/page_1.json''
           \<lparr> file_type = ''.jpg'', file_name = ''page_1.jpg'', audit_text = [],
             audit_entities = [], audit_page_number = ''1'' \<rparr>,
         Posted ''u'' [\<lparr> file_path = ''s3://bucket/img/page_1.jpg'', file_text = [],
                          page_number = PageStr ''1'', metadata_filename = ''page_1.jpg'',
                          metadata_entities = [], vector_embedding = Some 0 \<rparr>]])"
  by (simp add: eval_defs silent_env_def)

subsection \<open>Embedding failures\<close>

text \<open>
  Claim C5. \<^verbatim>\<open>get_img_txt_embeddings\<close> returns \<^verbatim>\<open>None\<close> and does not raise when the
  embedding call raises or its response has no \<^verbatim>\<open>embedding\<close> field. For an image
  artifact whose two descriptions were obtained, whose object name carries a page number
  and whose local file can be written, the record is then still assembled with the vector
  \<^verbatim>\<open>None\<close>, the local copy is still written and the record is still POSTed; the task
  does not raise, so the chunk loop counts no failure for it. The same holds for a text
  artifact when \<^verbatim>\<open>get_text_embedding\<close> returns \<^verbatim>\<open>None\<close>.
\<close>

theorem embedding_unavailable_record_still_ingested:
  "(titan env t = Inl e \<or> titan env t = Inr None \<longrightarrow>
      get_img_txt_embeddings env t = (None, [Embedded t]))
   \<and> (client_ok env f
      \<and> get_img_desc env f (entity_extraction_prompt cfg) = (Inr ents, ev1)
      \<and> get_img_desc env f (image_desc_prompt cfg) = (Inr descr, ev2)
      \<and> (titan env (ents @ descr) = Inl e \<or> titan env (ents @ descr) = Inr None)
      \<and> re_search_number (decimal_digits env) ''page_'' (path_stem f @ image_file_extn cfg) = Some page
      \<and> (\<forall>a. write_text env (os_path_join (json_img_dir cfg) (path_stem f @ ''.json'')) a)
      \<longrightarrow>
        (\<exists>r a. snd (process_image_data cfg env f url)
                 = ev1 @ ev2 @ [Embedded (ents @ descr),
                                Wrote (os_path_join (json_img_dir cfg) (path_stem f @ ''.json'')) a,
                                Posted url [r]]
              \<and> vector_embedding r = None \<and> file_text r = ents @ descr
              \<and> page_number r = PageStr page \<and> audit_text a = ents @ descr)
        \<and> \<not> isl (fst (process_image_data cfg env f url))
        \<and> fst (process_chunk cfg env [f]) = 0)
   \<and> (read_file env tf = Inr c \<and> get_text_embedding env c = Inr None
      \<and> re_search_number (decimal_digits env) ''text_'' (path_stem tf @ text_file_extn cfg) = Some tpage
      \<and> (\<forall>a. write_text env (os_path_join (json_txt_dir cfg) (path_stem tf @ ''.json'')) a)
      \<longrightarrow>
        (\<exists>r a. snd (process_text_data cfg env tf idx)
                 = [Embedded c,
                    Wrote (os_path_join (json_txt_dir cfg) (path_stem tf @ ''.json'')) a,
                    Posted (osi_text_endpoint cfg) [r]]
              \<and> vector_embedding r = None \<and> file_text r = c \<and> audit_text a = c))"
proof (intro conjI impI)
  assume "titan env t = Inl e \<or> titan env t = Inr None"
  then show "get_img_txt_embeddings env t = (None, [Embedded t])"
    by (auto simp: get_img_txt_embeddings_def)
next
  assume h: "client_ok env f
      \<and> get_img_desc env f (entity_extraction_prompt cfg) = (Inr ents, ev1)
      \<and> get_img_desc env f (image_desc_prompt cfg) = (Inr descr, ev2)
      \<and> (titan env (ents @ descr) = Inl e \<or> titan env (ents @ descr) = Inr None)
      \<and> re_search_number (decimal_digits env) ''page_'' (path_stem f @ image_file_extn cfg) = Some page
      \<and> (\<forall>a. write_text env (os_path_join (json_img_dir cfg) (path_stem f @ ''.json'')) a)"
  let ?fpath = "os_path_join (json_img_dir cfg) (path_stem f @ ''.json'')"
  from h have emb: "fst (get_img_txt_embeddings env (ents @ descr)) = None"
    by (auto simp: get_img_txt_embeddings_def)
  from h have ok: "client_ok env f" and wr: "\<And>a. write_text env ?fpath a" by simp_all
  from h image_record_ok[of env f cfg ents ev1 descr ev2 page]
  obtain data json where
    rec: "image_record cfg env f = (Inr (data, json), ev1 @ ev2 @ [Embedded (ents @ descr)])" and
    data: "data = [\<lparr> file_path = ''s3://'' @ bucket_name cfg @ ''/'' @ bucket_img_prefix cfg
                                      @ ''/'' @ path_stem f @ image_file_extn cfg,
                      file_text = ents @ descr,
                      page_number = PageStr page,
                      metadata_filename = path_stem f @ image_file_extn cfg,
                      metadata_entities = ents,
                      vector_embedding = fst (get_img_txt_embeddings env (ents @ descr)) \<rparr>]" and
    json: "audit_text json = ents @ descr"
    by simp
  have tr: "\<And>u. snd (process_image_data cfg env f u)
              = (ev1 @ ev2 @ [Embedded (ents @ descr)]) @ [Wrote ?fpath json, Posted u data]"
    using process_image_data_trace(1)[OF ok rec wr] by simp
  have nr: "\<And>u. \<not> isl (fst (process_image_data cfg env f u))"
    using process_image_data_trace(2)[OF ok rec wr] by simp
  show "\<exists>r a. snd (process_image_data cfg env f url)
                 = ev1 @ ev2 @ [Embedded (ents @ descr), Wrote ?fpath a, Posted url [r]]
              \<and> vector_embedding r = None \<and> file_text r = ents @ descr
              \<and> page_number r = PageStr page \<and> audit_text a = ents @ descr"
    using tr[of url] data json emb by simp
  show "\<not> isl (fst (process_image_data cfg env f url))" by (rule nr)
  show "fst (process_chunk cfg env [f]) = 0"
    using process_chunk_single[OF nr] .
next
  assume h: "read_file env tf = Inr c \<and> get_text_embedding env c = Inr None
      \<and> re_search_number (decimal_digits env) ''text_'' (path_stem tf @ text_file_extn cfg) = Some tpage
      \<and> (\<forall>a. write_text env (os_path_join (json_txt_dir cfg) (path_stem tf @ ''.json'')) a)"
  let ?fpath = "os_path_join (json_txt_dir cfg) (path_stem tf @ ''.json'')"
  from h text_record_ok[of env tf c None cfg tpage idx]
  obtain r a where rec: "text_record cfg env tf idx = (Inr ([r], a), [Embedded c])"
    and r: "vector_embedding r = None" "file_text r = c" and a: "audit_text a = c"
    by simp
  from h have "write_text env ?fpath a" by simp
  from process_text_data_trace[OF rec this] r a
  show "\<exists>r a. snd (process_text_data cfg env tf idx)
                 = [Embedded c, Wrote ?fpath a, Posted (osi_text_endpoint cfg) [r]]
              \<and> vector_embedding r = None \<and> file_text r = c \<and> audit_text a = c"
    by simp
qed

theorem embedding_unavailable_record_still_ingested_witness:
  "titan no_embedding_env ''Acme 'Q3'; A chart.'' = Inl EmbeddingError
   \<and> get_img_txt_embeddings no_embedding_env ''Acme 'Q3'; A chart.''
       = (None, [Embedded ''Acme 'Q3'; A chart.''])
   \<and> map vector_embedding (posted_records
         (snd (process_image_data demo_cfg no_embedding_env ''b64/page_1.b64'' ''u''))) = [None]
   \<and> map fst (written_audits
         (snd (process_image_data demo_cfg no_embedding_env ''b64/page_1.b64'' ''u'')))
       = [''json_img/page_1.json'']
   \<and> \<not> isl (fst (process_image_data demo_cfg no_embedding_env ''b64/page_1.b64'' ''u''))
   \<and> fst (process_chunk demo_cfg no_embedding_env [''b64/page_1.b64'']) = 0
   \<and> get_text_embedding no_embedding_env ''<t/text_1.txt>'' = Inr None
   \<and> (\<exists>r a. snd (process_text_data demo_cfg no_embedding_env ''t/text_1.txt'' 1)
               = [Embedded ''<t/text_1.txt>'', Wrote ''json_txt/text_1.json'' a,
                  Posted ''https://txt/ingest'' [r]]
            \<and> vector_embedding r = None)"
proof -
  note t = embedding_unavailable_record_still_ingested
     [of no_embedding_env "''Acme 'Q3'; A chart.''" EmbeddingError "''b64/page_1.b64''" demo_cfg
         "''Acme 'Q3'; ''" "[Invoked ''<b64/page_1.b64>'' ''entities?'']"
         "''A chart.''" "[Invoked ''<b64/page_1.b64>'' ''describe'']" "''1''" "''u''"
         "''t/text_1.txt''" "''<t/text_1.txt>''" "''1''" 1]
  have h1: "titan no_embedding_env ''Acme 'Q3'; A chart.'' = Inl EmbeddingError"
    by (simp add: no_embedding_env_def)
  have h2: "client_ok no_embedding_env ''b64/page_1.b64''"
    by (simp add: no_embedding_env_def demo_env_def)
  have h3: "get_img_desc no_embedding_env ''b64/page_1.b64'' (entity_extraction_prompt demo_cfg)
              = (Inr ''Acme 'Q3'; '', [Invoked ''<b64/page_1.b64>'' ''entities?''])"
    by (simp add: eval_defs no_embedding_env_def)
  have h4: "get_img_desc no_embedding_env ''b64/page_1.b64'' (image_desc_prompt demo_cfg)
              = (Inr ''A chart.'', [Invoked ''<b64/page_1.b64>'' ''describe''])"
    by (simp add: eval_defs no_embedding_env_def)
  have h5: "re_search_number (decimal_digits no_embedding_env) ''page_''
              (path_stem ''b64/page_1.b64'' @ image_file_extn demo_cfg)
              = Some ''1''"
    by (simp add: eval_defs no_embedding_env_def)
  have h6: "\<forall>a. write_text no_embedding_env
                   (os_path_join (json_img_dir demo_cfg) (path_stem ''b64/page_1.b64'' @ ''.json'')) a"
    by (simp add: no_embedding_env_def demo_env_def)
  from t h1 have c1: "get_img_txt_embeddings no_embedding_env ''Acme 'Q3'; A chart.''
                        = (None, [Embedded ''Acme 'Q3'; A chart.''])"
    by blast
  from t h1 h2 h3 h4 h5 h6
  have c2: "\<not> isl (fst (process_image_data demo_cfg no_embedding_env ''b64/page_1.b64'' ''u''))
            \<and> fst (process_chunk demo_cfg no_embedding_env [''b64/page_1.b64'']) = 0"
    by simp
  have g1: "read_file no_embedding_env ''t/text_1.txt'' = Inr ''<t/text_1.txt>''"
    and g2: "get_text_embedding no_embedding_env ''<t/text_1.txt>'' = Inr None"
    and g4: "\<forall>a. write_text no_embedding_env
                   (os_path_join (json_txt_dir demo_cfg) (path_stem ''t/text_1.txt'' @ ''.json'')) a"
    by (simp_all add: no_embedding_env_def demo_env_def)
  have g3: "re_search_number (decimal_digits no_embedding_env) ''text_''
              (path_stem ''t/text_1.txt'' @ text_file_extn demo_cfg) = Some ''1''"
    by (simp add: eval_defs no_embedding_env_def)
  have g5: "os_path_join (json_txt_dir demo_cfg) (path_stem ''t/text_1.txt'' @ ''.json'')
              = ''json_txt/text_1.json''"
           "osi_text_endpoint demo_cfg = ''https://txt/ingest''"
    by (simp_all add: eval_defs)
  from t g1 g2 g3 g4
  have c3: "\<exists>r a. snd (process_text_data demo_cfg no_embedding_env ''t/text_1.txt'' 1)
               = [Embedded ''<t/text_1.txt>'',
                  Wrote (os_path_join (json_txt_dir demo_cfg) (path_stem ''t/text_1.txt'' @ ''.json'')) a,
                  Posted (osi_text_endpoint demo_cfg) [r]]
            \<and> vector_embedding r = None"
    by blast
  from h1 c1 c2 g2 c3 show ?thesis unfolding g5 by (simp add: no_embedding_page_1)
qed

subsection \<open>The local copy\<close>

text \<open>
  Claim C8. For an image artifact and for a text artifact alike: once \<^verbatim>\<open>data\<close> and
  \<^verbatim>\<open>json_data\<close> are assembled and the local store accepts the write, the events of the
  artifact are those of the assembly, then exactly one write of \<^verbatim>\<open>json_data\<close> to the
  file named by the stem of the artifact, then the POST of \<^verbatim>\<open>data\<close>; nothing is written
  or POSTed before. The events do not depend on what the POST returns or raises.
\<close>

theorem local_copy_written_once_before_post:
  "(client_ok env f \<and> image_record cfg env f = (Inr (data, json), ev)
      \<and> write_text env (os_path_join (json_img_dir cfg) (path_stem f @ ''.json'')) json \<longrightarrow>
        snd (process_image_data cfg env f url)
          = ev @ [Wrote (os_path_join (json_img_dir cfg) (path_stem f @ ''.json'')) json,
                  Posted url data]
      \<and> written_audits ev = [] \<and> posted_records ev = [])
   \<and> (text_record cfg env t idx = (Inr (tdata, tjson), tev)
      \<and> write_text env (os_path_join (json_txt_dir cfg) (path_stem t @ ''.json'')) tjson \<longrightarrow>
        snd (process_text_data cfg env t idx)
          = tev @ [Wrote (os_path_join (json_txt_dir cfg) (path_stem t @ ''.json'')) tjson,
                   Posted (osi_text_endpoint cfg) tdata]
      \<and> written_audits tev = [] \<and> posted_records tev = [])
   \<and> snd (process_image_data cfg (env\<lparr> requests_post := post' \<rparr>) f url)
        = snd (process_image_data cfg env f url)
   \<and> snd (process_text_data cfg (env\<lparr> requests_post := post' \<rparr>) t idx)
        = snd (process_text_data cfg env t idx)"
  using process_image_data_trace(1)[of env f cfg data json ev url]
        image_record_quiet[of cfg env f "Inr (data, json)" ev]
        process_text_data_trace[of cfg env t idx tdata tjson tev]
        text_record_quiet[of cfg env t idx "Inr (tdata, tjson)" tev]
        process_image_data_post_irrelevant[of cfg "post'" env f url]
        process_text_data_post_irrelevant[of cfg "post'" env t idx]
  by blast

theorem local_copy_written_once_before_post_witness:
  "requests_post offline_env ''u''
       [\<lparr> file_path = ''s3://bucket/img/page_1.jpg'', file_text = ''Acme 'Q3'; A chart.'',
          page_number = PageStr ''1'', metadata_filename = ''page_1.jpg'',
          metadata_entities = ''Acme 'Q3'; '', vector_embedding = Some 19 \<rparr>] = Inl PostError
   \<and> snd (process_image_data demo_cfg offline_env ''b64/page_1.b64'' ''u'')
       = [Invoked ''<b64/page_1.b64>'' ''entities?'', Invoked ''<b64/page_1.b64>'' ''describe'',
          Embedded ''Acme 'Q3'; A chart.'']
         @ [Wrote ''json_img/page_1.json''
              \<lparr> file_type = ''.jpg'', file_name = ''page_1.jpg'', audit_text = ''Acme 'Q3'; A chart.'',
                audit_entities = ''Acme 'Q3'; '', audit_page_number = ''1'' \<rparr>,
            Posted ''u''
              [\<lparr> file_path = ''s3://bucket/img/page_1.jpg'', file_text = ''Acme 'Q3'; A chart.'',
                 page_number = PageStr ''1'', metadata_filename = ''page_1.jpg'',
                 metadata_entities = ''Acme 'Q3'; '', vector_embedding = Some 19 \<rparr>]]
   \<and> snd (process_text_data demo_cfg offline_env ''t/text_1.txt'' 1)
       = [Embedded ''<t/text_1.txt>'']
         @ [Wrote ''json_txt/text_1.json''
              \<lparr> file_type = ''.txt'', file_name = ''text_1'', audit_text = ''<t/text_1.txt>'',
                audit_entities = ''Acme'', audit_page_number = ''1'' \<rparr>,
            Posted ''https://txt/ingest''
              [\<lparr> file_path = ''s3://bucket/text/text_1.txt'', file_text = ''<t/text_1.txt>'',
                 page_number = PageInt 1, metadata_filename = ''text_1.txt'',
                 metadata_entities = ''Acme'', vector_embedding = Some 14 \<rparr>]]"
proof -
  let ?data = "[\<lparr> file_path = ''s3://bucket/img/page_1.jpg'', file_text = ''Acme 'Q3'; A chart.'',
                 page_number = PageStr ''1'', metadata_filename = ''page_1.jpg'',
                 metadata_entities = ''Acme 'Q3'; '', vector_embedding = Some (19::nat) \<rparr>]"
  let ?json = "\<lparr> file_type = ''.jpg'', file_name = ''page_1.jpg'', audit_text = ''Acme 'Q3'; A chart.'',
                audit_entities = ''Acme 'Q3'; '', audit_page_number = ''1'' \<rparr>"
  let ?ev = "[Invoked ''<b64/page_1.b64>'' ''entities?'', Invoked ''<b64/page_1.b64>'' ''describe'',
              Embedded ''Acme 'Q3'; A chart.''] :: nat event list"
  let ?tdata = "[\<lparr> file_path = ''s3://bucket/text/text_1.txt'', file_text = ''<t/text_1.txt>'',
                 page_number = PageInt 1, metadata_filename = ''text_1.txt'',
                 metadata_entities = ''Acme'', vector_embedding = Some (14::nat) \<rparr>]"
  let ?tjson = "\<lparr> file_type = ''.txt'', file_name = ''text_1'', audit_text = ''<t/text_1.txt>'',
                audit_entities = ''Acme'', audit_page_number = ''1'' \<rparr>"
  let ?tev = "[Embedded ''<t/text_1.txt>''] :: nat event list"
  note t = local_copy_written_once_before_post
     [where env = demo_env and f = "''b64/page_1.b64''" and cfg = demo_cfg and data = ?data
        and json = ?json and ev = ?ev and url = "''u''" and t = "''t/text_1.txt''" and idx = 1
        and tdata = ?tdata and tjson = ?tjson and tev = ?tev
        and post' = "\<lambda>u d. Inl PostError"]
  have p: "requests_post offline_env ''u'' ?data = Inl PostError"
    by (simp add: offline_env_def)
  have h1: "client_ok demo_env ''b64/page_1.b64''" by (simp add: demo_env_def)
  have h2: "image_record demo_cfg demo_env ''b64/page_1.b64'' = (Inr (?data, ?json), ?ev)"
    by (simp add: eval_defs)
  have h3: "write_text demo_env
              (os_path_join (json_img_dir demo_cfg) (path_stem ''b64/page_1.b64'' @ ''.json'')) ?json"
    by (simp add: demo_env_def)
  have h4: "text_record demo_cfg demo_env ''t/text_1.txt'' 1 = (Inr (?tdata, ?tjson), ?tev)"
    by (simp add: text_eval_defs)
  have h5: "write_text demo_env
              (os_path_join (json_txt_dir demo_cfg) (path_stem ''t/text_1.txt'' @ ''.json'')) ?tjson"
    by (simp add: demo_env_def)
  have paths: "os_path_join (json_img_dir demo_cfg) (path_stem ''b64/page_1.b64'' @ ''.json'')
                 = ''json_img/page_1.json''"
              "os_path_join (json_txt_dir demo_cfg) (path_stem ''t/text_1.txt'' @ ''.json'')
                 = ''json_txt/text_1.json''"
              "osi_text_endpoint demo_cfg = ''https://txt/ingest''"
    by (simp_all add: eval_defs)
  from t h1 h2 h3
  have c1: "snd (process_image_data demo_cfg (demo_env\<lparr> requests_post := \<lambda>u d. Inl PostError \<rparr>)
                   ''b64/page_1.b64'' ''u'')
              = ?ev @ [Wrote (os_path_join (json_img_dir demo_cfg) (path_stem ''b64/page_1.b64'' @ ''.json'')) ?json,
                       Posted ''u'' ?data]"
    by simp
  from t h4 h5
  have c2: "snd (process_text_data demo_cfg (demo_env\<lparr> requests_post := \<lambda>u d. Inl PostError \<rparr>)
                   ''t/text_1.txt'' 1)
              = ?tev @ [Wrote (os_path_join (json_txt_dir demo_cfg) (path_stem ''t/text_1.txt'' @ ''.json'')) ?tjson,
                        Posted (osi_text_endpoint demo_cfg) ?tdata]"
    by simp
  from p c1 c2 show ?thesis
    unfolding paths offline_env_def by simp
qed

subsection \<open>The failure counter\<close>

text \<open>
  Claim C1 at a batch of two images with batch size two, where the first call of the
  generative model raises for \<^verbatim>\<open>page_1\<close> and everything succeeds for \<^verbatim>\<open>page_2\<close>: the
  exception is caught inside \<^verbatim>\<open>process_image_data\<close>, the record of \<^verbatim>\<open>page_2\<close> is
  written and POSTed wherever \<^verbatim>\<open>page_1\<close> stands in the batch, and the final
  \<^verbatim>\<open>erroneous_page_count\<close> is 0, not 1. The counter moves only when a task itself
  raises (the client cannot be created), and then by the length of the whole chunk: 2.
\<close>

theorem failure_not_counted:
  "(case image_driver demo_cfg faulty_env [''b64/page_1.b64'', ''b64/page_2.b64''] of
      Inl e \<Rightarrow> False
    | Inr (erroneous_page_count, ev) \<Rightarrow>
        erroneous_page_count = 0
        \<and> map metadata_filename (posted_records ev) = [''page_2.jpg'']
        \<and> map fst (written_audits ev) = [''json_img/page_2.json''])
   \<and> (case image_driver demo_cfg faulty_env [''b64/page_2.b64'', ''b64/page_1.b64''] of
      Inl e \<Rightarrow> False
    | Inr (erroneous_page_count, ev) \<Rightarrow>
        erroneous_page_count = 0
        \<and> map metadata_filename (posted_records ev) = [''page_2.jpg''])
   \<and> (case image_driver demo_cfg clientless_env [''b64/page_1.b64'', ''b64/page_2.b64''] of
      Inl e \<Rightarrow> False
    | Inr (erroneous_page_count, ev) \<Rightarrow>
        erroneous_page_count = 2
        \<and> map metadata_filename (posted_records ev) = [''page_2.jpg''])"
  by (simp add: run_defs faulty_env_def clientless_env_def)

text \<open>
  What the counter does in general: as long as the client can be created in every task,
  \<^verbatim>\<open>erroneous_page_count\<close> stays 0, whatever fails inside the tasks.
\<close>

lemma process_chunk_counts_nothing:
  assumes "\<forall>f \<in> set image_chunk. client_ok env f"
  shows "fst (process_chunk cfg env image_chunk) = 0"
proof -
  have "\<And>f. client_ok env f \<Longrightarrow> \<not> isl (fst (process_image_data cfg env f (osi_img_endpoint cfg)))"
    by (auto simp: process_image_data_def Let_def split: sum.splits prod.splits)
  with assms show ?thesis by (auto simp: process_chunk_def Let_def)
qed

lemma chunk_loop_counts_nothing:
  assumes "\<forall>image_chunk \<in> set chunks. \<forall>f \<in> set image_chunk. client_ok env f"
  shows "fst (chunk_loop cfg env chunks) = 0"
  using assms
proof (induction chunks)
  case Nil
  then show ?case by simp
next
  case (Cons image_chunk chunks)
  then have "fst (process_chunk cfg env image_chunk) = 0" and "fst (chunk_loop cfg env chunks) = 0"
    by (simp_all add: process_chunk_counts_nothing)
  then show ?case by (auto simp: case_prod_beta)
qed

section \<open>Text pipeline\<close>

subsection \<open>Entity extraction\<close>

lemma chunk_step_distinct:
  "distinct (fst st) \<Longrightarrow> distinct (fst (chunk_step i st))"
  by (simp add: chunk_step_def Let_def)

lemma fold_chunk_step_distinct:
  "distinct (fst st) \<Longrightarrow> distinct (fst (fold chunk_step chunked st))"
  by (induction chunked arbitrary: st) (simp_all add: chunk_step_distinct)

lemma continuous_chunks_of_distinct: "distinct (continuous_chunks_of chunked)"
  by (simp add: continuous_chunks_of_def fold_chunk_step_distinct)

lemma fold_chunk_step_fresh:
  assumes "distinct (acc @ entity_spans chunked)"
  shows "fold chunk_step chunked (acc, []) = (acc @ entity_spans chunked, [])"
  using assms
proof (induction chunked arbitrary: acc)
  case Nil
  then show ?case by (simp add: entity_spans_def)
next
  case (Cons i chunked)
  show ?case
  proof (cases i)
    case (Tree label leaves)
    let ?e = "str_join '' '' (map fst leaves)"
    from Tree have sp: "entity_spans (i # chunked) = ?e # entity_spans chunked"
      by (simp add: entity_spans_def)
    with Cons.prems have fresh: "?e \<notin> set acc" and d: "distinct ((acc @ [?e]) @ entity_spans chunked)"
      by auto
    from Tree fresh have "chunk_step i (acc, []) = (acc @ [?e], [])"
      by (simp add: chunk_step_def Let_def)
    with Cons.IH[OF d] sp show ?thesis by simp
  next
    case (Tagged token pos)
    then have sp: "entity_spans (i # chunked) = entity_spans chunked"
      by (simp add: entity_spans_def)
    from Tagged have "chunk_step i (acc, []) = (acc, [])"
      by (simp add: chunk_step_def Let_def)
    with Cons.IH[of acc] Cons.prems sp show ?thesis by simp
  qed
qed

lemma continuous_chunks_of_distinct_spans:
  "distinct (entity_spans chunked) \<Longrightarrow> continuous_chunks_of chunked = entity_spans chunked"
  using fold_chunk_step_fresh[of "[]" chunked] by (simp add: continuous_chunks_of_def)

text \<open>
  Claim C7 at a text in which an entity occurs a second time: \<^verbatim>\<open>current_chunk\<close> is not
  emptied when the entity is already in the result, so the repeated entity is glued to the
  next entity. For the chunks of \<^verbatim>\<open>Google hired Alice. Google hired Bob.\<close> the notebook
  returns \<^verbatim>\<open>Google\<close>, \<^verbatim>\<open>Alice\<close>, \<^verbatim>\<open>Google Bob\<close>, where the deduplicated list of
  entity strings in order of first occurrence is \<^verbatim>\<open>Google\<close>, \<^verbatim>\<open>Alice\<close>, \<^verbatim>\<open>Bob\<close>.
  On an empty list of chunks the result is empty.
\<close>

theorem repeated_entity_glued_to_next:
  "get_continuous_chunks repeated_entity_env ''Google hired Alice. Google hired Bob.''
     = [''Google'', ''Alice'', ''Google Bob'']
   \<and> spec_entity_list (nltk_ne_chunk repeated_entity_env ''Google hired Alice. Google hired Bob.'')
     = [''Google'', ''Alice'', ''Bob'']
   \<and> continuous_chunks_of [] = []"
  by (simp add: get_continuous_chunks_def continuous_chunks_of_def chunk_step_def
                spec_entity_list_def entity_spans_def repeated_entity_env_def Let_def)

subsection \<open>Page numbers\<close>




subsection \<open>Three text files\<close>

text \<open>
  Claim C3 at the three files \<^verbatim>\<open>text_1.txt\<close>, \<^verbatim>\<open>text_2.txt\<close>, \<^verbatim>\<open>text_3.txt\<close> listed in the
  order \<^verbatim>\<open>text_3\<close>, \<^verbatim>\<open>text_1\<close>, \<^verbatim>\<open>text_2\<close> (\<^verbatim>\<open>os.listdir\<close> promises no order), every
  collaborator succeeding. The run ends without an exception, writes three local files
  and issues three POSTs of one record each. The local copies carry the page numbers 3,
  1, 2 of the file names, as strings; the records POSTed for the same files carry 1, 2, 3,
  the position in the list, as integers. With the files listed in the order of their
  names the POSTed page numbers are the integers 1, 2, 3, not the strings of the names.
\<close>

theorem text_post_carries_list_position:
  "fst (text_driver demo_cfg demo_env [''t/text_3.txt'', ''t/text_1.txt'', ''t/text_2.txt''])
     = Inr ()
   \<and> map fst (post_events (snd (text_driver demo_cfg demo_env
                [''t/text_3.txt'', ''t/text_1.txt'', ''t/text_2.txt''])))
       = [''https://txt/ingest'', ''https://txt/ingest'', ''https://txt/ingest'']
   \<and> map (map metadata_filename \<circ> snd) (post_events (snd (text_driver demo_cfg demo_env
                [''t/text_3.txt'', ''t/text_1.txt'', ''t/text_2.txt''])))
       = [[''text_3.txt''], [''text_1.txt''], [''text_2.txt'']]
   \<and> map (map page_number \<circ> snd) (post_events (snd (text_driver demo_cfg demo_env
                [''t/text_3.txt'', ''t/text_1.txt'', ''t/text_2.txt''])))
       = [[PageInt 1], [PageInt 2], [PageInt 3]]
   \<and> map fst (written_audits (snd (text_driver demo_cfg demo_env
                [''t/text_3.txt'', ''t/text_1.txt'', ''t/text_2.txt''])))
       = [''json_txt/text_3.json'', ''json_txt/text_1.json'', ''json_txt/text_2.json'']
   \<and> map (audit_page_number \<circ> snd) (written_audits (snd (text_driver demo_cfg demo_env
                [''t/text_3.txt'', ''t/text_1.txt'', ''t/text_2.txt''])))
       = [''3'', ''1'', ''2'']
   \<and> map (map page_number \<circ> snd) (post_events (snd (text_driver demo_cfg demo_env
                [''t/text_1.txt'', ''t/text_2.txt'', ''t/text_3.txt''])))
       = [[PageInt 1], [PageInt 2], [PageInt 3]]
   \<and> map (audit_page_number \<circ> snd) (written_audits (snd (text_driver demo_cfg demo_env
                [''t/text_1.txt'', ''t/text_2.txt'', ''t/text_3.txt''])))
       = [''1'', ''2'', ''3'']"
  by (simp add: text_eval_defs)

end
